theory Spec2Isabelle
  imports Complex_Main
begin

section \<open>JavaScript values used by the pipeline\<close>

subsection \<open>Numbers\<close>

text \<open>
  A JavaScript \<^verbatim>\<open>number\<close> is an IEEE 754 double: a finite value, which is a
  real number, or one of three special values. The result of an arithmetic
  operation on finite values is the exact result rounded to the nearest
  double, to the one with the even significand in a tie. \<open>round_double\<close> is
  this rounding, with a significand of 53 bits: \<open>binade x\<close> is the exponent of
  the power of two at or below \<open>\<bar>x\<bar>\<close>, \<open>ulp x\<close> the distance between the
  doubles of that binade. The range of the exponent is not modelled, so that
  there is neither overflow nor gradual underflow: the finite values that the
  score computes are 0 or lie between \<open>2\<^sup>-\<^sup>3\<^sup>3\<close> and \<open>2\<^sup>3\<^sup>2\<close>. The sign of zero
  is not modelled either: every zero that occurs in the source is the length
  of an array or a literal, hence \<open>+0\<close>.
\<close>

datatype jsnum = NaN | PInf | NInf | Num real

definition binade :: "real \<Rightarrow> int" where
  "binade x = \<lfloor>log 2 \<bar>x\<bar>\<rfloor>"

definition ulp :: "real \<Rightarrow> real" where
  "ulp x = 2 powr (real_of_int (binade x) - 52)"

definition round_half_even :: "real \<Rightarrow> int" where
  "round_half_even r =
     (let f = \<lfloor>r\<rfloor> in
      if r - real_of_int f < 1 / 2 then f
      else if r - real_of_int f > 1 / 2 then f + 1
      else if even f then f else f + 1)"

definition round_double :: "real \<Rightarrow> real" where
  "round_double x = (if x = 0 then 0 else ulp x * real_of_int (round_half_even (x / ulp x)))"

text \<open>A decimal literal of the source denotes the double nearest to it.\<close>

definition js_literal :: "real \<Rightarrow> jsnum" where
  "js_literal d = Num (round_double d)"

fun js_add :: "jsnum \<Rightarrow> jsnum \<Rightarrow> jsnum" where
  "js_add (Num x) (Num y) = Num (round_double (x + y))"
| "js_add NaN _ = NaN"
| "js_add _ NaN = NaN"
| "js_add PInf NInf = NaN"
| "js_add NInf PInf = NaN"
| "js_add PInf _ = PInf"
| "js_add _ PInf = PInf"
| "js_add NInf _ = NInf"
| "js_add _ NInf = NInf"

definition js_sign_inf :: "real \<Rightarrow> jsnum" where
  "js_sign_inf x = (if x > 0 then PInf else if x < 0 then NInf else NaN)"

fun js_mul :: "jsnum \<Rightarrow> jsnum \<Rightarrow> jsnum" where
  "js_mul (Num x) (Num y) = Num (round_double (x * y))"
| "js_mul NaN _ = NaN"
| "js_mul _ NaN = NaN"
| "js_mul PInf PInf = PInf"
| "js_mul PInf NInf = NInf"
| "js_mul NInf PInf = NInf"
| "js_mul NInf NInf = PInf"
| "js_mul PInf (Num y) = js_sign_inf y"
| "js_mul (Num x) PInf = js_sign_inf x"
| "js_mul NInf (Num y) = js_sign_inf (- y)"
| "js_mul (Num x) NInf = js_sign_inf (- x)"

fun js_div :: "jsnum \<Rightarrow> jsnum \<Rightarrow> jsnum" where
  "js_div (Num x) (Num y) = (if y \<noteq> 0 then Num (round_double (x / y)) else js_sign_inf x)"
| "js_div NaN _ = NaN"
| "js_div _ NaN = NaN"
| "js_div (Num x) _ = Num 0"
| "js_div PInf (Num y) = (if y \<ge> 0 then PInf else NInf)"
| "js_div NInf (Num y) = (if y \<ge> 0 then NInf else PInf)"
| "js_div _ _ = NaN"

text \<open>\<^verbatim>\<open>Math.min\<close>: \<open>NaN\<close> as soon as one argument is \<open>NaN\<close>.\<close>

fun js_min :: "jsnum \<Rightarrow> jsnum \<Rightarrow> jsnum" where
  "js_min (Num x) (Num y) = Num (min x y)"
| "js_min NaN _ = NaN"
| "js_min _ NaN = NaN"
| "js_min NInf _ = NInf"
| "js_min _ NInf = NInf"
| "js_min PInf y = y"
| "js_min x PInf = x"

text \<open>The comparisons \<^verbatim>\<open><=\<close> and \<^verbatim>\<open><\<close>: false as soon as one side is \<open>NaN\<close>.\<close>

fun js_le :: "jsnum \<Rightarrow> jsnum \<Rightarrow> bool" where
  "js_le (Num x) (Num y) = (x \<le> y)"
| "js_le NaN _ = False"
| "js_le _ NaN = False"
| "js_le NInf _ = True"
| "js_le _ PInf = True"
| "js_le _ _ = False"

fun js_lt :: "jsnum \<Rightarrow> jsnum \<Rightarrow> bool" where
  "js_lt (Num x) (Num y) = (x < y)"
| "js_lt NaN _ = False"
| "js_lt _ NaN = False"
| "js_lt PInf _ = False"
| "js_lt _ NInf = False"
| "js_lt _ _ = True"

text \<open>The length of an array or of a string: an integer below \<open>2\<^sup>3\<^sup>2\<close>, which is a double.\<close>

definition js_of_nat :: "nat \<Rightarrow> jsnum" where
  "js_of_nat n = Num (real n)"

subsection \<open>Strings\<close>

text \<open>
  A string is a list of code units; the model has the 256 code units of
  \<^typ>\<open>char\<close>, read as Latin-1, and \<^verbatim>\<open>.length\<close> is \<^const>\<open>length\<close>.
  \<^verbatim>\<open>toLowerCase\<close> maps \<open>A\<close>--\<open>Z\<close> and the upper-case letters of Latin-1 to their
  lower-case forms, one code unit at a time.
\<close>

definition lower_char :: "char \<Rightarrow> char" where
  "lower_char c = (let n = (of_char c :: nat) in
     if (65 \<le> n \<and> n \<le> 90) \<or> (192 \<le> n \<and> n \<le> 222 \<and> n \<noteq> 215)
     then char_of (n + 32) else c)"

definition toLowerCase :: "string \<Rightarrow> string" where
  "toLowerCase s = map lower_char s"

text \<open>\<^verbatim>\<open>s.includes(t)\<close>: \<open>t\<close> occurs in \<open>s\<close> as a contiguous substring.\<close>

fun str_includes :: "string \<Rightarrow> string \<Rightarrow> bool" where
  "str_includes [] t = (t = [])"
| "str_includes (x # xs) t = (take (length t) (x # xs) = t \<or> str_includes xs t)"

text \<open>
  \<open>split_by P s\<close> cuts \<open>s\<close> at every code unit satisfying \<open>P\<close>, keeping empty
  pieces, as \<^verbatim>\<open>String.prototype.split\<close> does for a separator of length one:
  \<^verbatim>\<open>"a  b".split(' ')\<close> is \<^verbatim>\<open>["a", "", "b"]\<close> and \<^verbatim>\<open>"".split(' ')\<close> is \<^verbatim>\<open>[""]\<close>.
\<close>

fun split_by :: "(char \<Rightarrow> bool) \<Rightarrow> string \<Rightarrow> string list" where
  "split_by P [] = [[]]"
| "split_by P (x # xs) =
     (if P x then [] # split_by P xs
      else (x # hd (split_by P xs)) # tl (split_by P xs))"

definition split_space :: "string \<Rightarrow> string list" where
  "split_space s = split_by (\<lambda>c. c = CHR '' '') s"

subsection \<open>Documents\<close>

text \<open>
  A langchain \<^verbatim>\<open>Document\<close>: the text of a chunk and its metadata, a
  \<^verbatim>\<open>Record<string, any>\<close> kept as an association list of printed values.
\<close>

record document =
  pageContent :: string
  metadata :: "(string \<times> string) list"

section \<open>The confidence score\<close>

text \<open>
  \<^verbatim>\<open>calculateConfidence\<close> (rag-system.ts, lines 590--615). \<open>questionWords\<close> is
  the constant of that name, \<open>docScore\<close> the body of the loop over the
  documents, \<open>score_loop\<close> the loop with its accumulator \<^verbatim>\<open>totalScore\<close>.
\<close>

definition questionWords :: "string \<Rightarrow> string list" where
  "questionWords question = filter (\<lambda>word. length word > 3) (split_space (toLowerCase question))"

definition docScore :: "string \<Rightarrow> document \<Rightarrow> jsnum" where
  "docScore question doc =
     (let content = toLowerCase (pageContent doc);
          s0 = Num 0;
          s1 = (if str_includes content (toLowerCase question) then js_add s0 (js_literal 0.4)
                else s0);
          matchedWords = filter (\<lambda>word. str_includes content word) (questionWords question);
          s2 = js_add s1 (js_mul (js_div (js_of_nat (length matchedWords))
                                         (js_of_nat (length (questionWords question))))
                                 (js_literal 0.3));
          s3 = (if length (pageContent doc) > 200 then js_add s2 (js_literal 0.1) else s2)
      in s3)"

fun score_loop :: "string \<Rightarrow> document list \<Rightarrow> jsnum \<Rightarrow> jsnum" where
  "score_loop question [] totalScore = totalScore"
| "score_loop question (doc # docs) totalScore =
     score_loop question docs (js_add totalScore (docScore question doc))"

definition calculateConfidence :: "string \<Rightarrow> document list \<Rightarrow> jsnum" where
  "calculateConfidence question docs =
     (if length docs = 0 then Num 0
      else js_min (js_div (score_loop question docs (Num 0)) (js_of_nat (length docs))) (Num 1))"

text \<open>The closed interval \<open>[0, 1]\<close> of numbers, as the comparisons of the language see it.\<close>

definition in_unit_interval :: "jsnum \<Rightarrow> bool" where
  "in_unit_interval x = (js_le (Num 0) x \<and> js_le x (Num 1))"

subsection \<open>The score as the specification words it\<close>

text \<open>
  The per-chunk score and the clamped average of section 4.7 of the
  specification, over the reals, with the tokenizer left as a parameter:
  \<open>whitespace_tokens\<close> cuts at every whitespace character, as the
  specification says; \<open>space_tokens\<close> cuts at the space character only, as the
  source does.
\<close>

definition is_whitespace :: "char \<Rightarrow> bool" where
  "is_whitespace c =
     (c \<in> set [CHR '' '', CHR 0x09, CHR 0x0A, CHR 0x0B, CHR 0x0C, CHR 0x0D, CHR 0xA0])"

definition whitespace_tokens :: "string \<Rightarrow> string list" where
  "whitespace_tokens s = split_by is_whitespace s"

definition space_tokens :: "string \<Rightarrow> string list" where
  "space_tokens s = split_by (\<lambda>c. c = CHR '' '') s"

definition spec_question_words :: "(string \<Rightarrow> string list) \<Rightarrow> string \<Rightarrow> string list" where
  "spec_question_words tokens question =
     filter (\<lambda>w. length w > 3) (tokens (toLowerCase question))"

definition spec_chunk_score :: "(string \<Rightarrow> string list) \<Rightarrow> string \<Rightarrow> document \<Rightarrow> real" where
  "spec_chunk_score tokens question chunk =
     (if str_includes (toLowerCase (pageContent chunk)) (toLowerCase question) then 0.4 else 0)
     + 0.3 * (real (length (filter (\<lambda>w. str_includes (toLowerCase (pageContent chunk)) w)
                              (spec_question_words tokens question)))
              / real (length (spec_question_words tokens question)))
     + (if length (pageContent chunk) > 200 then 0.1 else 0)"

definition spec_confidence :: "(string \<Rightarrow> string list) \<Rightarrow> string \<Rightarrow> document list \<Rightarrow> real" where
  "spec_confidence tokens question chunks =
     min ((\<Sum>c\<leftarrow>chunks. spec_chunk_score tokens question c) / real (length chunks)) 1"

section \<open>The pipeline and its collaborators\<close>

subsection \<open>Thrown values\<close>

text \<open>
  What a \<^verbatim>\<open>throw\<close> carries: an instance of \<^verbatim>\<open>Error\<close> with its name and its
  message, or any other value, of which only the string form matters.
  \<open>err_toString\<close> is the string that a template literal \<^verbatim>\<open>`${error}`\<close> inserts.
\<close>

datatype jserr = JsError string string | Thrown string

fun err_toString :: "jserr \<Rightarrow> string" where
  "err_toString (JsError name msg) =
     (if msg = [] then name else if name = [] then msg else name @ '': '' @ msg)"
| "err_toString (Thrown s) = s"

fun instanceof_Error :: "jserr \<Rightarrow> bool" where
  "instanceof_Error (JsError name msg) = True"
| "instanceof_Error (Thrown s) = False"

fun message :: "jserr \<Rightarrow> string" where
  "message (JsError name msg) = msg"
| "message (Thrown s) = []"

definition new_Error :: "string \<Rightarrow> jserr" where
  "new_Error msg = JsError ''Error'' msg"

text \<open>Calling a method of \<^verbatim>\<open>this.vectorStore\<close> while it is \<^verbatim>\<open>null\<close>.\<close>

definition null_TypeError :: jserr where
  "null_TypeError = JsError ''TypeError'' ''Cannot read properties of null''"

subsection \<open>The vector store\<close>

text \<open>
  A stored point carries a payload, of which three keys matter, each of which
  may be missing: \<^verbatim>\<open>content\<close> and \<^verbatim>\<open>metadata\<close>, which the vector-store wrapper
  writes, and \<^verbatim>\<open>pageContent\<close>, which the direct query of \<^verbatim>\<open>askQuestion\<close>
  reads together with \<^verbatim>\<open>metadata\<close>. A collection has the vector width of its
  configuration (absent when the configuration has no single \<^verbatim>\<open>size\<close>) and
  its points.
\<close>

record point =
  payload_content :: "string option"
  payload_pageContent :: "string option"
  payload_metadata :: "(string \<times> string) list option"

record coll =
  vectors_size :: "nat option"
  points :: "point list"

subsection \<open>Calls to collaborators\<close>

text \<open>
  Every call that leaves the process: the Qdrant client, the embedding model,
  the langchain vector-store wrapper, the retrieval chain, the chat model, and
  the clock.
\<close>

datatype call =
    ClusterStatus
  | EmbedQuery string
  | GetCollections
  | GetCollection string
  | DeleteCollection string
  | CreateCollection string nat
  | Query string "real list" nat
  | AddDocuments "document list"
  | SimilaritySearch string nat
  | RetrieverInvoke string nat
  | BuildChain
  | ChainInvoke string
  | LlmInvoke string
  | DateNow

text \<open>The content of a chat-model message: a string or an array of content parts.\<close>

datatype content_part = TextPart string | ImageUrlPart string

datatype message_content = CString string | CParts "content_part list" | CUndefined

text \<open>
  The environment fixes what the collaborators answer. Calls are numbered in
  the order in which the process makes them; \<open>fault e n c\<close> is what the call
  number \<open>n\<close>, being \<open>c\<close>, throws, if anything, and the other fields are the
  data that successful calls return and that the model of the store does not
  determine. The configuration of the system is part of the environment.
\<close>

record env =
  collectionName :: string
  fault :: "nat \<Rightarrow> call \<Rightarrow> jserr option"
  embedQuery_result :: "nat \<Rightarrow> string \<Rightarrow> real list"
  similaritySearch_result :: "nat \<Rightarrow> string \<Rightarrow> document list"
  retriever_result :: "nat \<Rightarrow> string \<Rightarrow> document list"
  query_result :: "nat \<Rightarrow> point list"
  vectors_count_result :: "nat \<Rightarrow> nat option"
  chain_answer :: "nat \<Rightarrow> string \<Rightarrow> string"
  llm_content :: "nat \<Rightarrow> string \<Rightarrow> message_content"
  clock_ms :: "nat \<Rightarrow> int"
  splitText :: "string \<Rightarrow> string list"
  uuidv4 :: "nat \<Rightarrow> nat \<Rightarrow> string"
  toISOString :: "nat \<Rightarrow> nat \<Rightarrow> string"

text \<open>
  The state: the collections of the Qdrant server, the calls made so far, the
  fields of \<^verbatim>\<open>AutoFixRAGSystem\<close> that change (\<^verbatim>\<open>vectorStore\<close> and
  \<^verbatim>\<open>retrievalChain\<close> are kept as "is not null") and the flag of
  \<^verbatim>\<open>AutoFixRAGService\<close>.
\<close>

record rag =
  store :: "(string \<times> coll) list"
  trace :: "call list"
  vectorStore :: bool
  retrievalChain :: bool
  actualVectorSize :: "nat option"
  isInitialized :: bool

subsection \<open>Actions\<close>

text \<open>
  An asynchronous method is a function from the state to a result and the new
  state; the result is \<open>Inl\<close> of the thrown value when the method throws. The
  state reached at a \<^verbatim>\<open>throw\<close> is kept, as assignments made before it are.
\<close>

type_synonym 'a action = "rag \<Rightarrow> (jserr + 'a) \<times> rag"

definition ret :: "'a \<Rightarrow> 'a action" where
  "ret x = (\<lambda>s. (Inr x, s))"

definition throw :: "jserr \<Rightarrow> 'a action" where
  "throw err = (\<lambda>s. (Inl err, s))"

definition bnd :: "'a action \<Rightarrow> ('a \<Rightarrow> 'b action) \<Rightarrow> 'b action" where
  "bnd m f = (\<lambda>s. case m s of (Inl err, s') \<Rightarrow> (Inl err, s') | (Inr x, s') \<Rightarrow> f x s')"

definition try_catch :: "'a action \<Rightarrow> (jserr \<Rightarrow> 'a action) \<Rightarrow> 'a action" where
  "try_catch m h = (\<lambda>s. case m s of (Inl err, s') \<Rightarrow> h err s' | (Inr x, s') \<Rightarrow> (Inr x, s'))"

definition modify :: "(rag \<Rightarrow> rag) \<Rightarrow> unit action" where
  "modify f = (\<lambda>s. (Inr (), f s))"

text \<open>
  A call to a collaborator is recorded in the trace; it throws what the
  environment says, and otherwise continues with \<open>k\<close>, which is given the
  number of the call.
\<close>

definition call_ext :: "env \<Rightarrow> call \<Rightarrow> (nat \<Rightarrow> 'a action) \<Rightarrow> 'a action" where
  "call_ext e c k =
     (\<lambda>s. let n = length (trace s); s' = s\<lparr>trace := trace s @ [c]\<rparr>
          in case fault e n c of Some err \<Rightarrow> (Inl err, s') | None \<Rightarrow> k n s')"

subsection \<open>The Qdrant client and the embedding model\<close>

text \<open>
  The server keeps a list of named collections. Reading a collection that does
  not exist and creating one that exists fail; deleting removes the
  collection with its points; a created collection has the requested width and
  no point. The description of a collection has the width of its
  configuration, the number of its points, and a count of vectors, which
  comes from the environment, as the result of a nearest-neighbour query does.
\<close>

record collection_info =
  config_vectors_size :: "nat option"
  points_count :: "nat option"
  vectors_count :: "nat option"

definition clusterStatus :: "env \<Rightarrow> unit action" where
  "clusterStatus e = call_ext e ClusterStatus (\<lambda>n. ret ())"

definition embedQuery :: "env \<Rightarrow> string \<Rightarrow> (real list) action" where
  "embedQuery e text = call_ext e (EmbedQuery text) (\<lambda>n. ret (embedQuery_result e n text))"

definition getCollections :: "env \<Rightarrow> (string list) action" where
  "getCollections e = call_ext e GetCollections (\<lambda>n s. (Inr (map fst (store s)), s))"

definition getCollection :: "env \<Rightarrow> string \<Rightarrow> collection_info action" where
  "getCollection e name = call_ext e (GetCollection name)
     (\<lambda>n s. case map_of (store s) name of
               None \<Rightarrow> (Inl (JsError ''Error'' ''Not Found''), s)
             | Some c \<Rightarrow> (Inr \<lparr>config_vectors_size = vectors_size c,
                               points_count = Some (length (points c)),
                               vectors_count = vectors_count_result e n\<rparr>, s))"

definition deleteCollection :: "env \<Rightarrow> string \<Rightarrow> unit action" where
  "deleteCollection e name = call_ext e (DeleteCollection name)
     (\<lambda>n. modify (\<lambda>s. s\<lparr>store := filter (\<lambda>p. fst p \<noteq> name) (store s)\<rparr>))"

definition createCollection :: "env \<Rightarrow> string \<Rightarrow> nat \<Rightarrow> unit action" where
  "createCollection e name width = call_ext e (CreateCollection name width)
     (\<lambda>n s. if map_of (store s) name \<noteq> None
            then (Inl (JsError ''Error'' ''Conflict''), s)
            else (Inr (), s\<lparr>store := store s @ [(name, \<lparr>vectors_size = Some width, points = []\<rparr>)]\<rparr>))"

definition qdrant_query :: "env \<Rightarrow> string \<Rightarrow> real list \<Rightarrow> nat \<Rightarrow> (point list) action" where
  "qdrant_query e name vector limit =
     call_ext e (Query name vector limit) (\<lambda>n. ret (query_result e n))"

text \<open>\<^verbatim>\<open>Date.now()\<close> reads the clock and cannot throw.\<close>

definition date_now :: "env \<Rightarrow> int action" where
  "date_now e = (\<lambda>s. (Inr (clock_ms e (length (trace s))), s\<lparr>trace := trace s @ [DateNow]\<rparr>))"

subsection \<open>The vector-store wrapper, the retrieval chain and the chat model\<close>

text \<open>
  The methods of \<^verbatim>\<open>this.vectorStore\<close>; each throws a \<^verbatim>\<open>TypeError\<close>, without
  any call, when the field is \<^verbatim>\<open>null\<close>. A successful \<^verbatim>\<open>addDocuments\<close> appends one
  point per document to the collection, with the text of the document under
  the payload key \<^verbatim>\<open>content\<close> and its metadata under \<^verbatim>\<open>metadata\<close> (the wrapper's
  own creation of a missing collection is not modelled).
\<close>

definition point_of_document :: "document \<Rightarrow> point" where
  "point_of_document d =
     \<lparr>payload_content = Some (pageContent d), payload_pageContent = None,
      payload_metadata = Some (metadata d)\<rparr>"

definition add_points :: "string \<Rightarrow> point list \<Rightarrow> (string \<times> coll) list \<Rightarrow> (string \<times> coll) list" where
  "add_points name ps st =
     map (\<lambda>(k, c). if k = name then (k, c\<lparr>points := points c @ ps\<rparr>) else (k, c)) st"

definition vs_addDocuments :: "env \<Rightarrow> document list \<Rightarrow> unit action" where
  "vs_addDocuments e documents =
     (\<lambda>s. if \<not> vectorStore s then (Inl null_TypeError, s)
          else call_ext e (AddDocuments documents)
                 (\<lambda>n. modify (\<lambda>s. s\<lparr>store := add_points (collectionName e)
                                                 (map point_of_document documents) (store s)\<rparr>)) s)"

definition vs_similaritySearch :: "env \<Rightarrow> string \<Rightarrow> nat \<Rightarrow> (document list) action" where
  "vs_similaritySearch e query k =
     (\<lambda>s. if \<not> vectorStore s then (Inl null_TypeError, s)
          else call_ext e (SimilaritySearch query k)
                 (\<lambda>n. ret (similaritySearch_result e n query)) s)"

definition vs_retriever_invoke :: "env \<Rightarrow> string \<Rightarrow> nat \<Rightarrow> (document list) action" where
  "vs_retriever_invoke e query k =
     (\<lambda>s. if \<not> vectorStore s then (Inl null_TypeError, s)
          else call_ext e (RetrieverInvoke query k)
                 (\<lambda>n. ret (retriever_result e n query)) s)"

definition chain_invoke :: "env \<Rightarrow> string \<Rightarrow> string action" where
  "chain_invoke e input = call_ext e (ChainInvoke input) (\<lambda>n. ret (chain_answer e n input))"

definition llm_invoke :: "env \<Rightarrow> string \<Rightarrow> message_content action" where
  "llm_invoke e prompt = call_ext e (LlmInvoke prompt) (\<lambda>n. ret (llm_content e n prompt))"

subsection \<open>Truthiness and string coercion of message content\<close>

fun truthy :: "message_content \<Rightarrow> bool" where
  "truthy (CString s) = (s \<noteq> [])"
| "truthy (CParts ps) = True"
| "truthy CUndefined = False"

fun is_string :: "message_content \<Rightarrow> bool" where
  "is_string (CString s) = True"
| "is_string _ = False"

text \<open>
  \<^verbatim>\<open>String(content)\<close>: an array prints its elements separated by commas, and
  every content part, being a plain object, prints as \<^verbatim>\<open>[object Object]\<close>.
\<close>

fun join :: "string \<Rightarrow> string list \<Rightarrow> string" where
  "join sep [] = []"
| "join sep [x] = x"
| "join sep (x # y # ys) = x @ sep @ join sep (y # ys)"

fun js_String :: "message_content \<Rightarrow> string" where
  "js_String (CString s) = s"
| "js_String (CParts ps) = join '','' (map (\<lambda>p. ''[object Object]'') ps)"
| "js_String CUndefined = ''undefined''"

section \<open>AutoFixRAGSystem\<close>

subsection \<open>Collection initialization\<close>

text \<open>
  \<^verbatim>\<open>detectEmbeddingDimensions\<close> (lines 106--117): a cached width that is not 0
  is returned without a probe.
\<close>

definition detectEmbeddingDimensions :: "env \<Rightarrow> nat action" where
  "detectEmbeddingDimensions e =
     (\<lambda>s. if actualVectorSize s \<noteq> None \<and> actualVectorSize s \<noteq> Some 0
          then (Inr (the (actualVectorSize s)), s)
          else bnd (embedQuery e ''test dimension detection'')
                 (\<lambda>testEmbedding. bnd (modify (\<lambda>s. s\<lparr>actualVectorSize := Some (length testEmbedding)\<rparr>))
                    (\<lambda>_. ret (length testEmbedding))) s)"

text \<open>\<^verbatim>\<open>testQdrantConnection\<close> (lines 122--132).\<close>

definition testQdrantConnection :: "env \<Rightarrow> bool action" where
  "testQdrantConnection e =
     try_catch (bnd (clusterStatus e) (\<lambda>health. ret True)) (\<lambda>error. ret False)"

text \<open>\<^verbatim>\<open>testCollectionQuery\<close> (lines 210--222).\<close>

definition testCollectionQuery :: "env \<Rightarrow> bool action" where
  "testCollectionQuery e =
     try_catch
       (\<lambda>s. bnd (qdrant_query e (collectionName e)
                   (replicate (if actualVectorSize s \<noteq> None \<and> actualVectorSize s \<noteq> Some 0
                               then the (actualVectorSize s) else 768) 0.1) 1)
                (\<lambda>result. ret True) s)
       (\<lambda>error. ret False)"

text \<open>
  \<^verbatim>\<open>createCollectionWithDimensions\<close> (lines 224--242); the wait of one second
  is not modelled.
\<close>

definition createCollectionWithDimensions :: "env \<Rightarrow> nat \<Rightarrow> unit action" where
  "createCollectionWithDimensions e dimensions = createCollection e (collectionName e) dimensions"

text \<open>
  The pair of calls that \<^verbatim>\<open>initializeCollection\<close> writes out in three places:
  delete the collection, then create it with the detected width.
\<close>

definition delete_and_create :: "env \<Rightarrow> nat \<Rightarrow> unit action" where
  "delete_and_create e actualDimensions =
     bnd (deleteCollection e (collectionName e))
       (\<lambda>_. createCollectionWithDimensions e actualDimensions)"

text \<open>
  The \<^verbatim>\<open>if (existingCollection)\<close> statement of \<^verbatim>\<open>initializeCollection\<close>
  (lines 156--195), given the listed collection names and the detected width.
\<close>

definition ensure_collection :: "env \<Rightarrow> string list \<Rightarrow> nat \<Rightarrow> unit action" where
  "ensure_collection e collections actualDimensions =
     (if find (\<lambda>col. col = collectionName e) collections \<noteq> None
      then try_catch
             (bnd (getCollection e (collectionName e)) (\<lambda>collectionInfo.
                let existingDimensions = config_vectors_size collectionInfo in
                if existingDimensions \<noteq> Some actualDimensions
                then delete_and_create e actualDimensions
                else bnd (testCollectionQuery e) (\<lambda>testQuery.
                       if \<not> testQuery then delete_and_create e actualDimensions
                       else ret ())))
             (\<lambda>error. delete_and_create e actualDimensions)
      else createCollectionWithDimensions e actualDimensions)"

text \<open>\<^verbatim>\<open>initializeCollection\<close> (lines 137--208).\<close>

definition initializeCollection :: "env \<Rightarrow> unit action" where
  "initializeCollection e =
     try_catch
       (bnd (testQdrantConnection e) (\<lambda>isQdrantHealthy.
          if \<not> isQdrantHealthy
          then throw (new_Error ''Qdrant server is not accessible or healthy'')
          else
          bnd (detectEmbeddingDimensions e) (\<lambda>actualDimensions.
          bnd (getCollections e) (\<lambda>collections.
          bnd (ensure_collection e collections actualDimensions) (\<lambda>_.
          modify (\<lambda>s. s\<lparr>vectorStore := True\<rparr>))))))
       (\<lambda>error. throw (new_Error (''Failed to initialize collection: '' @ err_toString error)))"

subsection \<open>Ingestion\<close>

text \<open>
  The documents built from the chunks of the splitter (lines 268--277): the
  metadata of the caller, then the index, a fresh identifier, the time and the
  source of the chunk. Numbers in the metadata are kept by their digits.
\<close>

fun set_key :: "string \<Rightarrow> string \<Rightarrow> (string \<times> string) list \<Rightarrow> (string \<times> string) list" where
  "set_key k v [] = [(k, v)]"
| "set_key k v ((k', v') # kvs) = (if k' = k then (k, v) # kvs else (k', v') # set_key k v kvs)"

fun digits :: "nat \<Rightarrow> string" where
  "digits n = (if n < 10 then [char_of (48 + n)] else digits (n div 10) @ [char_of (48 + n mod 10)])"

definition make_document ::
  "env \<Rightarrow> nat \<Rightarrow> (string \<times> string) list option \<Rightarrow> string \<Rightarrow> nat \<Rightarrow> document" where
  "make_document e n meta chunk index =
     \<lparr>pageContent = chunk,
      metadata =
        set_key ''source''
          (case meta of None \<Rightarrow> ''uploaded_text''
           | Some md \<Rightarrow> (case map_of md ''source'' of None \<Rightarrow> ''uploaded_text''
                         | Some src \<Rightarrow> if src = [] then ''uploaded_text'' else src))
          (set_key ''timestamp'' (toISOString e n index)
             (set_key ''chunkId'' (uuidv4 e n index)
                (set_key ''chunkIndex'' (digits index)
                   (case meta of None \<Rightarrow> [] | Some md \<Rightarrow> md))))\<rparr>"

text \<open>\<^verbatim>\<open>createRetrievalChain\<close> (lines 315--357); building the chain is one call.\<close>

definition createRetrievalChain :: "env \<Rightarrow> unit action" where
  "createRetrievalChain e =
     (\<lambda>s. if \<not> vectorStore s then (Inl (new_Error ''Vector store not initialized''), s)
          else try_catch
                 (call_ext e BuildChain (\<lambda>n. modify (\<lambda>s. s\<lparr>retrievalChain := True\<rparr>)))
                 (\<lambda>error. throw (new_Error (''Failed to create retrieval chain: ''
                                               @ err_toString error))) s)"

text \<open>The test of the \<^verbatim>\<open>catch\<close> block at line 289: the dimension-mismatch signal.\<close>

definition is_dimension_error :: "jserr \<Rightarrow> bool" where
  "is_dimension_error error = (instanceof_Error error \<and> str_includes (message error) ''dimension'')"

text \<open>
  The \<^verbatim>\<open>try\<close> block of \<^verbatim>\<open>processText\<close> that adds the documents (lines 280--305);
  the waits for indexing are not modelled.
\<close>

definition addDocuments_with_recovery :: "env \<Rightarrow> document list \<Rightarrow> unit action" where
  "addDocuments_with_recovery e documents =
     try_catch (vs_addDocuments e documents)
       (\<lambda>error.
          if is_dimension_error error
          then bnd (modify (\<lambda>s. s\<lparr>vectorStore := False\<rparr>)) (\<lambda>_.
               bnd (modify (\<lambda>s. s\<lparr>actualVectorSize := None\<rparr>)) (\<lambda>_.
               bnd (initializeCollection e) (\<lambda>_.
               vs_addDocuments e documents)))
          else throw error)"

text \<open>\<^verbatim>\<open>processText\<close> (lines 247--313).\<close>

definition processText :: "env \<Rightarrow> string \<Rightarrow> (string \<times> string) list option \<Rightarrow> unit action" where
  "processText e text meta =
     try_catch
       (bnd (\<lambda>s. if \<not> vectorStore s then initializeCollection e s else (Inr (), s)) (\<lambda>_.
          if text = [] \<or> filter (\<lambda>c. \<not> is_whitespace c) text = []
          then throw (new_Error ''No text content provided'')
          else
          bnd (\<lambda>s. (Inr (map (\<lambda>(index, chunk). make_document e (length (trace s)) meta chunk index)
                            (enumerate 0 (splitText e text))), s)) (\<lambda>documents.
          bnd (addDocuments_with_recovery e documents) (\<lambda>_.
          createRetrievalChain e))))
       (\<lambda>error. throw (new_Error (''Failed to process text: '' @ err_toString error)))"

subsection \<open>Statistics and clearing\<close>

record stats =
  totalPoints :: nat
  vectorsCount :: nat
  stats_collectionName :: string
  isReady :: bool
  vectorDimensions :: nat

definition width_or_768 :: "rag \<Rightarrow> nat" where
  "width_or_768 s =
     (if actualVectorSize s \<noteq> None \<and> actualVectorSize s \<noteq> Some 0
      then the (actualVectorSize s) else 768)"

text \<open>
  \<^verbatim>\<open>getCollectionStats\<close> (lines 617--644); \<open>count_or_0\<close> is \<^verbatim>\<open>count || 0\<close>.
\<close>

fun count_or_0 :: "nat option \<Rightarrow> nat" where
  "count_or_0 None = 0"
| "count_or_0 (Some count) = count"

definition getCollectionStats :: "env \<Rightarrow> stats action" where
  "getCollectionStats e =
     try_catch
       (bnd (getCollection e (collectionName e)) (\<lambda>collectionInfo s.
          (Inr \<lparr>totalPoints = count_or_0 (points_count collectionInfo),
                vectorsCount = count_or_0 (vectors_count collectionInfo),
                stats_collectionName = collectionName e,
                isReady = retrievalChain s,
                vectorDimensions = width_or_768 s\<rparr>, s)))
       (\<lambda>error s.
          (Inr \<lparr>totalPoints = 0,
                vectorsCount = 0,
                stats_collectionName = collectionName e,
                isReady = False,
                vectorDimensions = width_or_768 s\<rparr>, s))"

text \<open>\<^verbatim>\<open>clearDocuments\<close> (lines 646--662).\<close>

definition clearDocuments :: "env \<Rightarrow> unit action" where
  "clearDocuments e =
     try_catch
       (bnd (\<lambda>s. if vectorStore s then deleteCollection e (collectionName e) s else (Inr (), s)) (\<lambda>_.
        bnd (modify (\<lambda>s. s\<lparr>vectorStore := False\<rparr>)) (\<lambda>_.
        bnd (modify (\<lambda>s. s\<lparr>retrievalChain := False\<rparr>)) (\<lambda>_.
        modify (\<lambda>s. s\<lparr>actualVectorSize := None\<rparr>)))))
       (\<lambda>error. throw error)"

subsection \<open>Answering a question\<close>

record qa_result =
  answer :: string
  sources :: "document list"
  confidence :: jsnum
  retrievalTime :: int
  generationTime :: int
  chunksUsed :: nat

definition not_found_answer :: string where
  "not_found_answer = ''I couldn't find any relevant documents to answer your question. Please make sure documents have been uploaded and processed correctly.''"

definition document_of_point :: "point \<Rightarrow> document" where
  "document_of_point p =
     \<lparr>pageContent = (case payload_pageContent p of None \<Rightarrow> [] | Some c \<Rightarrow> c),
      metadata = (case payload_metadata p of None \<Rightarrow> [] | Some m \<Rightarrow> m)\<rparr>"

text \<open>
  The retrieval cascade of \<^verbatim>\<open>askQuestion\<close> (lines 429--467): the similarity
  search, then the retriever, then the embedding of the question and the query
  of the Qdrant client.
\<close>

definition retrieveDocs :: "env \<Rightarrow> string \<Rightarrow> (document list) action" where
  "retrieveDocs e question =
     try_catch (vs_similaritySearch e question 5)
       (\<lambda>searchError.
          try_catch (vs_retriever_invoke e question 5)
            (\<lambda>altError.
               try_catch
                 (bnd (embedQuery e question) (\<lambda>questionEmbedding.
                  bnd (qdrant_query e (collectionName e) questionEmbedding 5) (\<lambda>queryResult.
                  ret (map document_of_point queryResult))))
                 (\<lambda>directError.
                    throw (new_Error (''All retrieval methods failed: ''
                                      @ err_toString directError)))))"

definition manual_prompt :: "string \<Rightarrow> string \<Rightarrow> string" where
  "manual_prompt context question =
     ''Based on the following context, please answer the question accurately:''
     @ [CHR 0x0A, CHR 0x0A] @ ''Context: '' @ context
     @ [CHR 0x0A, CHR 0x0A] @ ''Question: '' @ question
     @ [CHR 0x0A, CHR 0x0A] @ ''Answer:''"

text \<open>The generation step of \<^verbatim>\<open>askQuestion\<close> (lines 487--506).\<close>

definition generate_answer :: "env \<Rightarrow> string \<Rightarrow> document list \<Rightarrow> string action" where
  "generate_answer e question relevantDocs =
     try_catch (chain_invoke e question)
       (\<lambda>chainError.
          let context = join [CHR 0x0A, CHR 0x0A] (map pageContent relevantDocs) in
          bnd (llm_invoke e (manual_prompt context question)) (\<lambda>response.
          ret (case response of CString content \<Rightarrow> content | _ \<Rightarrow> js_String response)))"

text \<open>\<^verbatim>\<open>askQuestion\<close> (lines 410--528).\<close>

definition askQuestion :: "env \<Rightarrow> string \<Rightarrow> qa_result action" where
  "askQuestion e question =
     (\<lambda>s. if \<not> retrievalChain s \<or> \<not> vectorStore s
          then (Inl (new_Error ''No documents processed yet. Please upload and process a document first.''), s)
          else
          try_catch
            (bnd (getCollectionStats e) (\<lambda>stats.
               if totalPoints stats = 0
               then throw (new_Error ''No documents found in the collection. Please upload documents first.'')
               else
               bnd (date_now e) (\<lambda>startTime.
               bnd (retrieveDocs e question) (\<lambda>relevantDocs.
               bnd (date_now e) (\<lambda>retrievalEnd.
               let retrievalTime = retrievalEnd - startTime in
               if length relevantDocs = 0
               then ret \<lparr>answer = not_found_answer, sources = [], confidence = Num 0,
                         retrievalTime = retrievalTime, generationTime = 0, chunksUsed = 0\<rparr>
               else
               bnd (date_now e) (\<lambda>generationStart.
               bnd (generate_answer e question relevantDocs) (\<lambda>answerText.
               bnd (date_now e) (\<lambda>generationEnd.
               let generationTime = generationEnd - generationStart;
                   score = calculateConfidence question relevantDocs
               in ret \<lparr>answer = answerText, sources = relevantDocs, confidence = score,
                        retrievalTime = retrievalTime, generationTime = generationTime,
                        chunksUsed = length relevantDocs\<rparr>))))))))
            (\<lambda>error. throw (new_Error (''Failed to answer question: '' @ err_toString error))) s)"

subsection \<open>The streamed answer\<close>

text \<open>
  \<^verbatim>\<open>convertStreamToStringIterable\<close> (lines 578--588), on the finite sequence of
  the contents of the chunks of the generation stream.
\<close>

fun convertStreamToStringIterable :: "message_content list \<Rightarrow> string list" where
  "convertStreamToStringIterable [] = []"
| "convertStreamToStringIterable (content # stream) =
     (if truthy content \<and> is_string content
      then (case content of CString s \<Rightarrow> s # convertStreamToStringIterable stream
            | _ \<Rightarrow> convertStreamToStringIterable stream)
      else if truthy content
      then js_String content # convertStreamToStringIterable stream
      else convertStreamToStringIterable stream)"

section \<open>AutoFixRAGService\<close>

text \<open>\<^verbatim>\<open>initialize\<close> (lines 689--700).\<close>

definition initialize :: "env \<Rightarrow> unit action" where
  "initialize e =
     (\<lambda>s. if \<not> isInitialized s
          then try_catch
                 (bnd (initializeCollection e) (\<lambda>_. modify (\<lambda>s. s\<lparr>isInitialized := True\<rparr>)))
                 (\<lambda>error. throw error) s
          else (Inr (), s))"

text \<open>\<^verbatim>\<open>queryDocument\<close> (lines 726--734): a result or an object with the field \<^verbatim>\<open>error\<close>.\<close>

definition queryDocument :: "env \<Rightarrow> string \<Rightarrow> (string + qa_result) action" where
  "queryDocument e question =
     try_catch
       (bnd (initialize e) (\<lambda>_.
        bnd (askQuestion e question) (\<lambda>result. ret (Inr result))))
       (\<lambda>error. ret (Inl (''Error querying document: ''
                           @ (if instanceof_Error error then message error else err_toString error))))"

text \<open>\<^verbatim>\<open>getStats\<close> (lines 746--768).\<close>

definition getStats :: "env \<Rightarrow> stats action" where
  "getStats e =
     try_catch
       (\<lambda>s. if \<not> isInitialized s
            then (Inr \<lparr>totalPoints = 0, vectorsCount = 0, stats_collectionName = ''Not initialized'',
                       isReady = False, vectorDimensions = 768\<rparr>, s)
            else getCollectionStats e s)
       (\<lambda>error. ret \<lparr>totalPoints = 0, vectorsCount = 0, stats_collectionName = ''Error'',
                       isReady = False, vectorDimensions = 768\<rparr>)"

text \<open>\<^verbatim>\<open>clearAll\<close> (lines 770--779).\<close>

definition clearAll :: "env \<Rightarrow> unit action" where
  "clearAll e =
     try_catch
       (bnd (clearDocuments e) (\<lambda>_. modify (\<lambda>s. s\<lparr>isInitialized := False\<rparr>)))
       (\<lambda>error. throw error)"

section \<open>Example inputs\<close>

text \<open>
  An environment in which no call fails, with a three-component embedding and
  empty search results, and the state of a process that has just started
  against an empty server. The examples below vary them.
\<close>

definition calm :: env where
  "calm = \<lparr>collectionName = ''docs'',
           fault = (\<lambda>n c. None),
           embedQuery_result = (\<lambda>n t. [0.1, 0.2, 0.3]),
           similaritySearch_result = (\<lambda>n q. []),
           retriever_result = (\<lambda>n q. []),
           query_result = (\<lambda>n. []),
           vectors_count_result = (\<lambda>n. None),
           chain_answer = (\<lambda>n q. ''yes''),
           llm_content = (\<lambda>n p. CString ''yes''),
           clock_ms = (\<lambda>n. int n),
           splitText = (\<lambda>t. [t]),
           uuidv4 = (\<lambda>n i. ''id''),
           toISOString = (\<lambda>n i. ''now'')\<rparr>"

definition fresh :: rag where
  "fresh = \<lparr>store = [], trace = [], vectorStore = False, retrievalChain = False,
            actualVectorSize = None, isInitialized = False\<rparr>"

text \<open>
  The state of a service that is initialized and has a retrieval chain, while
  the collection on the server has no point.
\<close>

definition ready_empty :: rag where
  "ready_empty = \<lparr>store = [(''docs'', \<lparr>vectors_size = Some 3, points = []\<rparr>)], trace = [],
                  vectorStore = True, retrievalChain = True, actualVectorSize = Some 3,
                  isInitialized = True\<rparr>"

text \<open>
  A process that has just started against a server that holds the collection
  of an earlier configuration: width 256 and one point.
\<close>

definition stale :: rag where
  "stale = \<lparr>store = [(''docs'', \<lparr>vectors_size = Some 256,
                                  points = [point_of_document \<lparr>pageContent = ''old'', metadata = []\<rparr>]\<rparr>)],
            trace = [], vectorStore = False, retrievalChain = False,
            actualVectorSize = None, isInitialized = False\<rparr>"

text \<open>
  The state of a service that is initialized against a collection of width 3
  without points, before any document is processed, and one document.
\<close>

definition ready :: rag where
  "ready = \<lparr>store = [(''docs'', \<lparr>vectors_size = Some 3, points = []\<rparr>)], trace = [],
            vectorStore = True, retrievalChain = False, actualVectorSize = Some 3,
            isInitialized = True\<rparr>"

definition paris :: document where
  "paris = \<lparr>pageContent = ''Paris is the capital of France.'', metadata = [(''source'', ''doc1'')]\<rparr>"

section \<open>Notions used in the proofs\<close>

text \<open>The number of \<^verbatim>\<open>addDocuments\<close> calls made so far.\<close>

fun is_upsert :: "call \<Rightarrow> bool" where
  "is_upsert (AddDocuments documents) = True"
| "is_upsert _ = False"

fun is_embed :: "call \<Rightarrow> bool" where
  "is_embed (EmbedQuery text) = True"
| "is_embed _ = False"

definition count_upserts :: "rag \<Rightarrow> nat" where
  "count_upserts s = length (filter is_upsert (trace s))"

text \<open>
  What the calls of collection initialization leave alone, whether they
  return or throw: the fields of the system and the number of
  \<^verbatim>\<open>addDocuments\<close> calls; calls are only added to the trace, and none of
  them to the embedding model.
\<close>

definition same_fields :: "rag \<Rightarrow> rag \<Rightarrow> bool" where
  "same_fields s s' = (vectorStore s' = vectorStore s \<and> retrievalChain s' = retrievalChain s
     \<and> actualVectorSize s' = actualVectorSize s \<and> isInitialized s' = isInitialized s
     \<and> count_upserts s' = count_upserts s
     \<and> (\<exists>calls. trace s' = trace s @ calls \<and> (\<forall>c\<in>set calls. \<not> is_embed c)))"

text \<open>
  The cached width is backed by a probe: there is none, or it is the length of
  the embedding that a probe call of the trace returned.
\<close>

definition probe_backed :: "env \<Rightarrow> rag \<Rightarrow> bool" where
  "probe_backed e s =
     (case actualVectorSize s of
        None \<Rightarrow> True
      | Some width \<Rightarrow>
          (\<exists>n<length (trace s).
              trace s ! n = EmbedQuery ''test dimension detection''
              \<and> fault e n (EmbedQuery ''test dimension detection'') = None
              \<and> width = length (embedQuery_result e n ''test dimension detection'')))"

text \<open>The collection was deleted and created again after the first \<open>n\<close> calls, and is empty.\<close>

definition recreated :: "env \<Rightarrow> nat \<Rightarrow> nat \<Rightarrow> rag \<Rightarrow> bool" where
  "recreated e d n s' =
     (map_of (store s') (collectionName e) = Some \<lparr>vectors_size = Some d, points = []\<rparr>
      \<and> DeleteCollection (collectionName e) \<in> set (drop n (trace s'))
      \<and> CreateCollection (collectionName e) d \<in> set (drop n (trace s')))"

text \<open>
  The relative error of one rounding to a double is at most \<open>2\<^sup>-\<^sup>5\<^sup>3\<close>.
  \<open>close_to k a b\<close>: the number \<open>a\<close> is the exact value \<open>b\<close> up to \<open>k\<close>
  roundings, each of which can move it by that factor at most.
\<close>

definition unit_roundoff :: real where
  "unit_roundoff = 1 / 2 ^ 53"

definition close_to :: "nat \<Rightarrow> real \<Rightarrow> real \<Rightarrow> bool" where
  "close_to k a b = (b * (1 - unit_roundoff) ^ k \<le> a \<and> a \<le> b * (1 + unit_roundoff) ^ k)"

section \<open>Properties of the confidence score\<close>

subsection \<open>Rounding to a double\<close>

text \<open>
  Rounding a positive real to a double moves it by half a unit in the last
  place at most, which is at most \<open>2\<^sup>-\<^sup>5\<^sup>3\<close> of its value.
\<close>

lemma round_half_even_error: "\<bar>real_of_int (round_half_even r) - r\<bar> \<le> 1 / 2"
  unfolding round_half_even_def Let_def by (auto simp: abs_if) linarith+

lemma ulp_pos: "0 < ulp x"
  by (simp add: ulp_def)

lemma ulp_le:
  assumes "0 < x"
  shows "ulp x \<le> x / 2 ^ 52"
proof -
  have "\<lfloor>log 2 x\<rfloor> = binade x" using assms by (simp add: binade_def)
  then have "2 powr real_of_int (binade x) \<le> x"
    using floor_log_eq_powr_iff [of x 2 "binade x"] assms by simp
  moreover have "ulp x = 2 powr real_of_int (binade x) / 2 ^ 52"
    by (simp add: ulp_def powr_diff)
  ultimately show ?thesis by (simp add: divide_right_mono)
qed

lemma round_double_error:
  assumes "0 < x"
  shows "\<bar>round_double x - x\<bar> \<le> x * unit_roundoff"
proof -
  let ?u = "ulp x"
  have u: "0 < ?u" by (rule ulp_pos)
  have "round_double x - x = ?u * (real_of_int (round_half_even (x / ?u)) - x / ?u)"
    using assms u by (simp add: round_double_def algebra_simps)
  then have "\<bar>round_double x - x\<bar> = ?u * \<bar>real_of_int (round_half_even (x / ?u)) - x / ?u\<bar>"
    using u by (simp add: abs_mult)
  also have "\<dots> \<le> ?u * (1 / 2)"
    using u round_half_even_error [of "x / ?u"] by (intro mult_left_mono) simp_all
  also have "\<dots> \<le> (x / 2 ^ 52) * (1 / 2)"
    using ulp_le [OF assms] by simp
  also have "\<dots> = x * unit_roundoff" by (simp add: unit_roundoff_def)
  finally show ?thesis .
qed

lemma round_double_0 [simp]: "round_double 0 = 0"
  by (simp add: round_double_def)

lemma round_double_bounds:
  assumes "0 \<le> x"
  shows "x * (1 - unit_roundoff) \<le> round_double x" and "round_double x \<le> x * (1 + unit_roundoff)"
proof -
  have "\<bar>round_double x - x\<bar> \<le> x * unit_roundoff"
  proof (cases "x = 0")
    case True then show ?thesis by simp
  next
    case False with assms show ?thesis by (intro round_double_error) simp
  qed
  then show "x * (1 - unit_roundoff) \<le> round_double x" and "round_double x \<le> x * (1 + unit_roundoff)"
    by (simp_all add: algebra_simps abs_le_iff)
qed

text \<open>
  The rounding of a real whose binade is known; with it the doubles that the
  literals of the source denote are computed: \<^verbatim>\<open>0.4\<close> is
  \<^verbatim>\<open>0x3FD999999999999A\<close>, \<^verbatim>\<open>0.3\<close> is \<^verbatim>\<open>0x3FD3333333333333\<close>, and their sum
  falls half way between two doubles and is rounded to the even one,
  \<^verbatim>\<open>0x3FE6666666666666\<close>, the double that \<^verbatim>\<open>0.7\<close> denotes.
\<close>

lemma binade_eqI:
  assumes "2 powr real_of_int k \<le> \<bar>x\<bar>" and "\<bar>x\<bar> < 2 powr (real_of_int k + 1)"
  shows "binade x = k"
proof -
  have pos: "0 < \<bar>x\<bar>" using assms(1) by (smt (verit) powr_gt_zero)
  have "real_of_int k \<le> log 2 \<bar>x\<bar>" using assms(1) pos by (simp add: le_log_iff)
  moreover have "log 2 \<bar>x\<bar> < real_of_int k + 1" using assms(2) pos by (simp add: log_less_iff)
  ultimately show ?thesis unfolding binade_def by (simp add: floor_eq_iff)
qed

lemma round_double_eqI:
  assumes "2 powr real_of_int k \<le> \<bar>x\<bar>" and "\<bar>x\<bar> < 2 powr (real_of_int k + 1)"
  shows "round_double x
         = 2 powr (real_of_int k - 52)
           * real_of_int (round_half_even (x / 2 powr (real_of_int k - 52)))"
proof -
  have "x \<noteq> 0" using assms(1) by (smt (verit) powr_gt_zero)
  then show ?thesis by (simp add: round_double_def ulp_def binade_eqI [OF assms])
qed

lemma round_double_literals:
  "round_double 0.4 = 7205759403792794 / 2 ^ 54"
  "round_double 0.3 = 5404319552844595 / 2 ^ 54"
  "round_double (7205759403792794 / 2 ^ 54 + 5404319552844595 / 2 ^ 54) = 6305039478318694 / 2 ^ 53"
proof -
  show "round_double 0.4 = 7205759403792794 / 2 ^ 54"
    using round_double_eqI [of "- 2" "0.4"]
    by (simp add: round_half_even_def powr_minus_divide Let_def)
  show "round_double 0.3 = 5404319552844595 / 2 ^ 54"
    using round_double_eqI [of "- 2" "0.3"]
    by (simp add: round_half_even_def powr_minus_divide Let_def)
  show "round_double (7205759403792794 / 2 ^ 54 + 5404319552844595 / 2 ^ 54) = 6305039478318694 / 2 ^ 53"
    using round_double_eqI [of "- 1" "7205759403792794 / 2 ^ 54 + 5404319552844595 / 2 ^ 54"]
    by (simp add: round_half_even_def powr_minus_divide Let_def)
qed


subsection \<open>Accumulated rounding\<close>

text \<open>
  How \<open>close_to\<close> goes through the operations of the score, all on numbers
  that are not negative: a rounding adds one to the count, a sum keeps the
  count of its operands, a product adds the counts, a division by an exact
  number keeps the count. Up to \<open>2\<^sup>3\<^sup>3\<close> roundings move a value by less than
  \<open>2\<^sup>-\<^sup>1\<^sup>9\<close> of it.
\<close>

lemma roundoff_facts:
  "0 < 1 - unit_roundoff" "1 - unit_roundoff \<le> 1" "1 \<le> 1 + unit_roundoff" "0 < unit_roundoff"
  by (simp_all add: unit_roundoff_def)

lemma close_to_nonneg: "close_to k a b \<Longrightarrow> 0 \<le> b \<Longrightarrow> 0 \<le> a"
proof -
  assume c: "close_to k a b" and b: "0 \<le> b"
  have "0 \<le> b * (1 - unit_roundoff) ^ k" using b roundoff_facts(1) by simp
  with c show ?thesis by (simp add: close_to_def)
qed

lemma close_to_refl: "close_to 0 b b"
  by (simp add: close_to_def)

lemma close_to_zero: "close_to k 0 0"
  by (simp add: close_to_def)

lemma close_to_mono:
  assumes "close_to k a b" and "k \<le> k'" and "0 \<le> b"
  shows "close_to k' a b"
proof -
  have "(1 - unit_roundoff) ^ k' \<le> (1 - unit_roundoff) ^ k"
    using assms(2) roundoff_facts by (intro power_decreasing) simp_all
  then have lo: "b * (1 - unit_roundoff) ^ k' \<le> b * (1 - unit_roundoff) ^ k"
    using assms(3) by (rule mult_left_mono)
  have "(1 + unit_roundoff) ^ k \<le> (1 + unit_roundoff) ^ k'"
    using assms(2) roundoff_facts by (intro power_increasing) simp_all
  then have hi: "b * (1 + unit_roundoff) ^ k \<le> b * (1 + unit_roundoff) ^ k'"
    using assms(3) by (rule mult_left_mono)
  from assms(1) lo hi show ?thesis by (simp add: close_to_def)
qed

lemma close_to_round:
  assumes "close_to k a b" and "0 \<le> b"
  shows "close_to (Suc k) (round_double a) b"
proof -
  have a: "0 \<le> a" using assms by (rule close_to_nonneg)
  have "b * (1 - unit_roundoff) ^ k * (1 - unit_roundoff) \<le> a * (1 - unit_roundoff)"
    using assms(1) roundoff_facts(1) by (intro mult_right_mono) (simp_all add: close_to_def)
  also have "\<dots> \<le> round_double a" using a by (rule round_double_bounds)
  finally have lo: "b * (1 - unit_roundoff) ^ Suc k \<le> round_double a" by (simp add: mult_ac)
  have "round_double a \<le> a * (1 + unit_roundoff)" using a by (rule round_double_bounds)
  also have "\<dots> \<le> b * (1 + unit_roundoff) ^ k * (1 + unit_roundoff)"
    using assms(1) roundoff_facts(3) by (intro mult_right_mono) (simp_all add: close_to_def)
  finally have hi: "round_double a \<le> b * (1 + unit_roundoff) ^ Suc k" by (simp add: mult_ac)
  from lo hi show ?thesis by (simp add: close_to_def)
qed

lemma close_to_add:
  assumes "close_to k a b" and "close_to k a' b'"
  shows "close_to k (a + a') (b + b')"
  using assms by (simp add: close_to_def distrib_right add_mono)

lemma close_to_mult:
  assumes "close_to k a b" and "close_to k' a' b'" and "0 \<le> b" and "0 \<le> b'"
  shows "close_to (k + k') (a * a') (b * b')"
proof -
  have a: "0 \<le> a" "0 \<le> a'" using assms close_to_nonneg by blast+
  have "(b * (1 - unit_roundoff) ^ k) * (b' * (1 - unit_roundoff) ^ k') \<le> a * a'"
    using assms roundoff_facts(1) a by (intro mult_mono) (simp_all add: close_to_def)
  then have lo: "b * b' * (1 - unit_roundoff) ^ (k + k') \<le> a * a'"
    by (simp add: power_add mult_ac)
  have "a * a' \<le> (b * (1 + unit_roundoff) ^ k) * (b' * (1 + unit_roundoff) ^ k')"
    using assms roundoff_facts(3) a by (intro mult_mono) (simp_all add: close_to_def)
  then have hi: "a * a' \<le> b * b' * (1 + unit_roundoff) ^ (k + k')"
    by (simp add: power_add mult_ac)
  from lo hi show ?thesis by (simp add: close_to_def)
qed

lemma close_to_divide:
  assumes "close_to k a b" and "0 < n"
  shows "close_to k (a / n) (b / n)"
  using assms by (simp add: close_to_def divide_right_mono)

lemma power_roundoff_bounds:
  assumes "k \<le> 2 ^ 33"
  shows "1 - 1 / 2 ^ 20 \<le> (1 - unit_roundoff) ^ k" and "(1 + unit_roundoff) ^ k \<le> 1 + 1 / 2 ^ 19"
proof -
  have "real k * unit_roundoff \<le> 2 ^ 33 * unit_roundoff"
    using assms roundoff_facts(4) by (intro mult_right_mono) (simp_all add: of_nat_le_iff [symmetric] del: of_nat_le_iff)
  also have "\<dots> = 1 / 2 ^ 20" by (simp add: unit_roundoff_def)
  finally have kd: "real k * unit_roundoff \<le> 1 / 2 ^ 20" .
  have "1 + real k * (- unit_roundoff) \<le> (1 + (- unit_roundoff)) ^ k"
    by (rule Bernoulli_inequality) (simp add: unit_roundoff_def)
  with kd show lo: "1 - 1 / 2 ^ 20 \<le> (1 - unit_roundoff) ^ k" by simp
  have "(1 + unit_roundoff) * (1 - unit_roundoff) \<le> 1"
    by (simp add: unit_roundoff_def algebra_simps)
  moreover have "0 \<le> (1 + unit_roundoff) * (1 - unit_roundoff)"
    using roundoff_facts by simp
  ultimately have "((1 + unit_roundoff) * (1 - unit_roundoff)) ^ k \<le> 1"
    by (simp add: power_le_one)
  then have prod: "(1 + unit_roundoff) ^ k * (1 - unit_roundoff) ^ k \<le> 1"
    by (simp add: power_mult_distrib)
  have hi0: "0 \<le> (1 + unit_roundoff) ^ k" using roundoff_facts by simp
  have "(1 + unit_roundoff) ^ k * (1 - 1 / 2 ^ 20) \<le> (1 + unit_roundoff) ^ k * (1 - unit_roundoff) ^ k"
    using lo hi0 by (rule mult_left_mono)
  with prod have "(1 + unit_roundoff) ^ k * (1 - 1 / 2 ^ 20) \<le> 1" by simp
  then have "(1 + unit_roundoff) ^ k \<le> 1 / (1 - 1 / 2 ^ 20)"
    by (simp add: pos_le_divide_eq)
  also have "\<dots> \<le> 1 + 1 / 2 ^ 19" by simp
  finally show "(1 + unit_roundoff) ^ k \<le> 1 + 1 / 2 ^ 19" .
qed

lemma close_to_error:
  assumes "close_to k a b" and "0 \<le> b" and "k \<le> 2 ^ 33"
  shows "\<bar>a - b\<bar> \<le> b / 2 ^ 19"
proof -
  note pb = power_roundoff_bounds [OF assms(3)]
  have "b * (1 - 1 / 2 ^ 20) \<le> b * (1 - unit_roundoff) ^ k"
    using pb(1) assms(2) by (rule mult_left_mono)
  with assms(1) have lo: "b * (1 - 1 / 2 ^ 20) \<le> a" by (simp add: close_to_def)
  have "b * (1 + unit_roundoff) ^ k \<le> b * (1 + 1 / 2 ^ 19)"
    using pb(2) assms(2) by (rule mult_left_mono)
  with assms(1) have hi: "a \<le> b * (1 + 1 / 2 ^ 19)" by (simp add: close_to_def)
  have "b * (1 - 1 / 2 ^ 19) \<le> b * (1 - 1 / 2 ^ 20)"
    using assms(2) by (intro mult_left_mono) simp_all
  with lo have lo': "b * (1 - 1 / 2 ^ 19) \<le> a" by simp
  from lo' hi have "a - b \<le> b / 2 ^ 19" "b - a \<le> b / 2 ^ 19" by (simp_all add: algebra_simps)
  then show ?thesis by (simp only: abs_le_iff minus_diff_eq simp_thms)
qed


subsection \<open>The score and the exact formula\<close>

text \<open>
  The exact per-chunk score lies in \<open>[0, 0.8]\<close>, and so does the exact
  average, which the clamp of the formula therefore leaves as it is.
\<close>

lemma questionWords_space_tokens:
  "questionWords question = spec_question_words space_tokens question"
  by (simp add: questionWords_def spec_question_words_def space_tokens_def split_space_def)

lemma spec_chunk_score_bounds:
  "0 \<le> spec_chunk_score tokens question chunk \<and> spec_chunk_score tokens question chunk \<le> 0.8"
proof -
  let ?ws = "spec_question_words tokens question"
  let ?m = "filter (\<lambda>w. str_includes (toLowerCase (pageContent chunk)) w) ?ws"
  have "length ?m \<le> length ?ws" by (rule length_filter_le)
  then have le1: "real (length ?m) / real (length ?ws) \<le> 1"
    by (simp add: divide_le_eq_1)
  have ge0: "0 \<le> real (length ?m) / real (length ?ws)" by simp
  show ?thesis
    using le1 ge0 unfolding spec_chunk_score_def by (auto simp: Let_def)
qed

lemma sum_list_spec_chunk_score_bounds:
  "0 \<le> (\<Sum>c\<leftarrow>chunks. spec_chunk_score tokens question c)
   \<and> (\<Sum>c\<leftarrow>chunks. spec_chunk_score tokens question c) \<le> 0.8 * real (length chunks)"
proof (induction chunks)
  case Nil
  then show ?case by simp
next
  case (Cons c cs)
  then show ?case
    using spec_chunk_score_bounds [of tokens question c] by (simp add: algebra_simps)
qed

lemma spec_average_bounds:
  assumes "chunks \<noteq> []"
  shows "0 \<le> (\<Sum>c\<leftarrow>chunks. spec_chunk_score tokens question c) / real (length chunks)"
    and "(\<Sum>c\<leftarrow>chunks. spec_chunk_score tokens question c) / real (length chunks) \<le> 0.8"
proof -
  have pos: "0 < real (length chunks)" using assms by simp
  show "0 \<le> (\<Sum>c\<leftarrow>chunks. spec_chunk_score tokens question c) / real (length chunks)"
    using sum_list_spec_chunk_score_bounds [of tokens question chunks] by simp
  show "(\<Sum>c\<leftarrow>chunks. spec_chunk_score tokens question c) / real (length chunks) \<le> 0.8"
    using sum_list_spec_chunk_score_bounds [of tokens question chunks] pos
    by (simp add: pos_divide_le_eq)
qed

lemma spec_confidence_average:
  assumes "chunks \<noteq> []"
  shows "spec_confidence tokens question chunks
         = (\<Sum>c\<leftarrow>chunks. spec_chunk_score tokens question c) / real (length chunks)"
proof -
  have "(\<Sum>c\<leftarrow>chunks. spec_chunk_score tokens question c) / real (length chunks) \<le> 1"
    using spec_average_bounds(2) [OF assms, of tokens question] by linarith
  then show ?thesis by (simp add: spec_confidence_def min_absorb1)
qed

lemma close_to_literal: "0 \<le> d \<Longrightarrow> close_to 1 (round_double d) d"
  using close_to_round [OF close_to_refl, of d] by simp

lemma docScore_close:
  assumes "questionWords question \<noteq> []"
  shows "\<exists>v. docScore question doc = Num v
             \<and> close_to 5 v (spec_chunk_score space_tokens question doc)"
proof -
  let ?content = "toLowerCase (pageContent doc)"
  let ?ws = "questionWords question"
  let ?m = "real (length (filter (\<lambda>w. str_includes ?content w) ?ws))"
  let ?n = "real (length ?ws)"
  let ?hit = "str_includes ?content (toLowerCase question)"
  let ?long = "length (pageContent doc) > 200"
  define e1 :: real where "e1 = (if ?hit then 0.4 else 0)"
  define s1 where "s1 = (if ?hit then round_double (0 + round_double 0.4) else 0)"
  define w where "w = round_double (round_double (?m / ?n) * round_double 0.3)"
  define s2 where "s2 = round_double (s1 + w)"
  define s3 where "s3 = (if ?long then round_double (s2 + round_double 0.1) else s2)"
  have n: "0 < ?n" using assms by simp
  have ratio: "0 \<le> ?m / ?n" by simp
  have e1: "0 \<le> e1" by (simp add: e1_def)
  have c1: "close_to 2 s1 e1"
  proof (cases ?hit)
    case True
    have "close_to 1 (0 + round_double 0.4) (0 + 0.4)"
      using close_to_literal [of "0.4"] by simp
    then have "close_to (Suc 1) (round_double (0 + round_double 0.4)) (0 + 0.4)"
      by (rule close_to_round) simp
    with True show ?thesis by (simp add: s1_def e1_def numeral_2_eq_2)
  next
    case False
    then show ?thesis by (simp add: s1_def e1_def close_to_zero)
  qed
  have "close_to (1 + 1) (round_double (?m / ?n) * round_double 0.3) (?m / ?n * 0.3)"
    using close_to_literal [OF ratio] close_to_literal [of "0.3"] ratio
    by (intro close_to_mult) simp_all
  then have "close_to (Suc (1 + 1)) w (?m / ?n * 0.3)"
    unfolding w_def using ratio by (intro close_to_round) simp_all
  then have cw: "close_to 3 w (?m / ?n * 0.3)" by (simp add: numeral_3_eq_3)
  have w0: "0 \<le> ?m / ?n * (0.3::real)" using ratio by simp
  have "close_to 3 s1 e1" by (rule close_to_mono [OF c1 _ e1]) simp
  then have "close_to 3 (s1 + w) (e1 + ?m / ?n * 0.3)" using cw by (rule close_to_add)
  then have "close_to (Suc 3) s2 (e1 + ?m / ?n * 0.3)"
    unfolding s2_def using e1 w0 by (intro close_to_round) simp_all
  then have c2: "close_to 4 s2 (e1 + ?m / ?n * 0.3)" by (simp add: eval_nat_numeral)
  have e2: "0 \<le> e1 + ?m / ?n * 0.3" using e1 w0 by simp
  have c3: "close_to 5 s3 (e1 + ?m / ?n * 0.3 + (if ?long then 0.1 else 0))"
  proof (cases ?long)
    case True
    have "close_to 4 (round_double 0.1) 0.1"
      by (rule close_to_mono [OF close_to_literal [of "0.1"]]) simp_all
    with c2 have "close_to 4 (s2 + round_double 0.1) (e1 + ?m / ?n * 0.3 + 0.1)"
      by (rule close_to_add)
    then have "close_to (Suc 4) (round_double (s2 + round_double 0.1)) (e1 + ?m / ?n * 0.3 + 0.1)"
      using e2 by (intro close_to_round) simp_all
    with True show ?thesis by (simp add: s3_def eval_nat_numeral)
  next
    case False
    have "close_to 5 s2 (e1 + ?m / ?n * 0.3)" by (rule close_to_mono [OF c2 _ e2]) simp
    with False show ?thesis by (simp add: s3_def)
  qed
  have spec: "spec_chunk_score space_tokens question doc
              = e1 + ?m / ?n * 0.3 + (if ?long then 0.1 else 0)"
    by (simp add: spec_chunk_score_def e1_def questionWords_space_tokens [symmetric])
  have code: "docScore question doc = Num s3"
    using n by (simp add: docScore_def Let_def js_literal_def js_of_nat_def s3_def s2_def w_def s1_def)
  from code c3 spec show ?thesis by simp
qed

lemma score_loop_close:
  assumes "questionWords question \<noteq> []" and "close_to k t E" and "0 \<le> E" and "5 \<le> k"
  shows "\<exists>t'. score_loop question docs (Num t) = Num t'
              \<and> close_to (k + length docs) t'
                   (E + (\<Sum>c\<leftarrow>docs. spec_chunk_score space_tokens question c))"
  using assms(2-)
proof (induction docs arbitrary: t E k)
  case Nil
  then show ?case by simp
next
  case (Cons d ds)
  let ?e = "spec_chunk_score space_tokens question d"
  from docScore_close [OF assms(1), of d] obtain v where
    v: "docScore question d = Num v" "close_to 5 v ?e" by blast
  have e: "0 \<le> ?e" using spec_chunk_score_bounds [of space_tokens question d] by simp
  have "close_to k v ?e" using v(2) Cons.prems(3) e by (rule close_to_mono)
  with Cons.prems(1) have "close_to k (t + v) (E + ?e)" by (rule close_to_add)
  then have step: "close_to (Suc k) (round_double (t + v)) (E + ?e)"
    using Cons.prems(2) e by (intro close_to_round) simp_all
  have "0 \<le> E + ?e" using Cons.prems(2) e by simp
  moreover have "5 \<le> Suc k" using Cons.prems(3) by simp
  ultimately obtain t' where
    t': "score_loop question ds (Num (round_double (t + v))) = Num t'"
        "close_to (Suc k + length ds) t'
           (E + ?e + (\<Sum>c\<leftarrow>ds. spec_chunk_score space_tokens question c))"
    using Cons.IH [OF step] by blast
  from t' v(1) show ?case by (simp add: add.assoc)
qed

lemma calculateConfidence_close:
  assumes "questionWords question \<noteq> []" and "docs \<noteq> []"
  shows "\<exists>a. js_div (score_loop question docs (Num 0)) (js_of_nat (length docs)) = Num a
             \<and> close_to (length docs + 6) a
                  ((\<Sum>c\<leftarrow>docs. spec_chunk_score space_tokens question c) / real (length docs))"
proof -
  let ?S = "\<Sum>c\<leftarrow>docs. spec_chunk_score space_tokens question c"
  have n: "0 < real (length docs)" using assms(2) by simp
  have S: "0 \<le> ?S" using sum_list_spec_chunk_score_bounds [of space_tokens question docs] by simp
  from score_loop_close [OF assms(1) close_to_zero [of 5], of docs] obtain t where
    t: "score_loop question docs (Num 0) = Num t" "close_to (5 + length docs) t (0 + ?S)"
    by auto
  from t(2) have "close_to (5 + length docs) (t / real (length docs)) (?S / real (length docs))"
    using n by (simp add: close_to_divide)
  then have "close_to (Suc (5 + length docs)) (round_double (t / real (length docs)))
               (?S / real (length docs))"
    using S n by (intro close_to_round) simp_all
  then have "close_to (length docs + 6) (round_double (t / real (length docs)))
               (?S / real (length docs))"
    by (simp add: add.commute)
  with t(1) n show ?thesis by (simp add: js_of_nat_def)
qed

lemma calculateConfidence_value:
  assumes "questionWords question \<noteq> []" and "docs \<noteq> []" and "length docs < 2 ^ 32"
  shows "\<exists>v. calculateConfidence question docs = Num v
             \<and> js_div (score_loop question docs (Num 0)) (js_of_nat (length docs)) = Num v
             \<and> \<bar>v - spec_confidence space_tokens question docs\<bar>
                 \<le> spec_confidence space_tokens question docs / 2 ^ 19
             \<and> 0 \<le> v \<and> v < 1"
proof -
  let ?A = "(\<Sum>c\<leftarrow>docs. spec_chunk_score space_tokens question c) / real (length docs)"
  from calculateConfidence_close [OF assms(1,2)] obtain a where
    a: "js_div (score_loop question docs (Num 0)) (js_of_nat (length docs)) = Num a"
       "close_to (length docs + 6) a ?A" by blast
  have A: "0 \<le> ?A" "?A \<le> 0.8" using spec_average_bounds [OF assms(2), of space_tokens question] by simp_all
  have k: "length docs + 6 \<le> 2 ^ 33" using assms(3) by simp
  have err: "\<bar>a - ?A\<bar> \<le> ?A / 2 ^ 19" using a(2) A(1) k by (rule close_to_error)
  have a0: "0 \<le> a" using a(2) A(1) by (rule close_to_nonneg)
  have "?A / 2 ^ 19 \<le> 0.8 / 2 ^ 19" using A(2) by (rule divide_right_mono) simp
  moreover have "a - ?A \<le> ?A / 2 ^ 19" using err by (simp only: abs_le_iff)
  ultimately have "a \<le> ?A + 0.8 / 2 ^ 19" by linarith
  moreover have "(0.8::real) / 2 ^ 19 < 0.2" by simp
  ultimately have a1: "a < 1" using A(2) by linarith
  have "calculateConfidence question docs = Num a"
    using assms(2) a(1) a1 by (simp add: calculateConfidence_def min_absorb1)
  with a(1) err a0 a1 show ?thesis
    by (simp add: spec_confidence_average [OF assms(2)])
qed


text \<open>
  A question with no question word has the score \<open>NaN\<close> on every non-empty
  list of chunks: the fraction of matched words is \<open>0 / 0\<close>.
\<close>

lemma docScore_NaN:
  assumes "questionWords question = []"
  shows "docScore question doc = NaN"
  using assms by (simp add: docScore_def js_of_nat_def js_sign_inf_def js_literal_def Let_def)

lemma calculateConfidence_empty: "calculateConfidence question [] = Num 0"
  by (simp add: calculateConfidence_def)

lemma spec_chunk_score_containing:
  assumes "str_includes (toLowerCase (pageContent d)) (toLowerCase question)"
  shows "0.4 + (if length (pageContent d) > 200 then 0.1 else 0)
         \<le> spec_chunk_score tokens question d"
  using assms by (simp add: spec_chunk_score_def)

lemma spec_chunk_score_not_containing:
  assumes "\<not> str_includes (toLowerCase (pageContent d)) (toLowerCase question)"
  shows "spec_chunk_score tokens question d
         \<le> 0.3 + (if length (pageContent d) > 200 then 0.1 else 0)"
proof -
  let ?ws = "spec_question_words tokens question"
  let ?m = "filter (\<lambda>w. str_includes (toLowerCase (pageContent d)) w) ?ws"
  have "length ?m \<le> length ?ws" by (rule length_filter_le)
  then have "real (length ?m) / real (length ?ws) \<le> 1"
    by (simp add: divide_le_eq_1)
  then show ?thesis using assms by (simp add: spec_chunk_score_def)
qed

lemma js_add_NaN_right: "js_add t NaN = NaN"
  by (cases t) simp_all

lemma score_loop_from_NaN: "score_loop question docs NaN = NaN"
  by (induction docs) simp_all

lemma calculateConfidence_NaN:
  assumes "questionWords question = []" and "docs \<noteq> []"
  shows "calculateConfidence question docs = NaN"
proof -
  from assms(2) obtain d ds where docs: "docs = d # ds" by (cases docs) auto
  have "score_loop question docs (Num 0) = NaN"
    using assms(1) by (simp add: docs docScore_NaN score_loop_from_NaN)
  then show ?thesis using assms(2) by (simp add: calculateConfidence_def js_of_nat_def)
qed

text \<open>
  Between a chunk that contains the question and one of equal length that does
  not, the exact scores differ by 0.1 at least, the computed ones by more than
  the roundings can make up for.
\<close>

lemma calculateConfidence_single_order:
  assumes words: "questionWords question \<noteq> []"
    and c1: "str_includes (toLowerCase (pageContent d1)) (toLowerCase question)"
    and c2: "\<not> str_includes (toLowerCase (pageContent d2)) (toLowerCase question)"
    and len: "length (pageContent d1) = length (pageContent d2)"
  shows "js_lt (calculateConfidence question [d2]) (calculateConfidence question [d1])"
proof -
  let ?e1 = "spec_chunk_score space_tokens question d1"
  let ?e2 = "spec_chunk_score space_tokens question d2"
  have avg: "spec_confidence space_tokens question [d] = spec_chunk_score space_tokens question d"
    for d using spec_confidence_average [of "[d]" space_tokens question] by simp
  from calculateConfidence_value [OF words, of "[d1]"] obtain v1 where
    v1: "calculateConfidence question [d1] = Num v1" "\<bar>v1 - ?e1\<bar> \<le> ?e1 / 2 ^ 19"
    by (auto simp: avg)
  from calculateConfidence_value [OF words, of "[d2]"] obtain v2 where
    v2: "calculateConfidence question [d2] = Num v2" "\<bar>v2 - ?e2\<bar> \<le> ?e2 / 2 ^ 19"
    by (auto simp: avg)
  have gap: "?e2 + 0.1 \<le> ?e1"
    using spec_chunk_score_containing [OF c1, of space_tokens]
      spec_chunk_score_not_containing [OF c2, of space_tokens] len
    by (simp split: if_splits)
  define r1 where "r1 = ?e1 / 2 ^ 19"
  define r2 where "r2 = ?e2 / 2 ^ 19"
  have "r1 \<le> 1 / 100"
    using spec_chunk_score_bounds [of space_tokens question d1] by (simp add: r1_def)
  moreover have "r2 \<le> 1 / 100"
    using spec_chunk_score_bounds [of space_tokens question d2] by (simp add: r2_def)
  moreover have "?e1 - v1 \<le> r1"
    using v1(2) unfolding r1_def by (simp only: abs_le_iff minus_diff_eq)
  moreover have "v2 - ?e2 \<le> r2" using v2(2) unfolding r2_def by (simp only: abs_le_iff)
  ultimately have "v2 < v1" using gap by linarith
  then show ?thesis by (simp add: v1(1) v2(1))
qed

text \<open>
  The score of the question \<^verbatim>\<open>"what is rust"\<close> on two chunks, the question
  itself and \<^verbatim>\<open>"zzzz zz zzzz"\<close>, followed through the roundings of the source:
  the first chunk scores \<^verbatim>\<open>0.4 + 0.3\<close>, the double \<^verbatim>\<open>0x3FE6666666666666\<close>, the
  second 0, and the average is half of the former, which is just below 0.35.
\<close>

lemma calculateConfidence_example:
  "calculateConfidence ''what is rust''
     [\<lparr>pageContent = ''what is rust'', metadata = []\<rparr>, \<lparr>pageContent = ''zzzz zz zzzz'', metadata = []\<rparr>]
   = Num (6305039478318694 / 2 ^ 54)"
proof -
  define a4 :: real where "a4 = 7205759403792794 / 2 ^ 54"
  define a3 :: real where "a3 = 5404319552844595 / 2 ^ 54"
  define a7 :: real where "a7 = 6305039478318694 / 2 ^ 53"
  have lit: "round_double 0.4 = a4" "round_double 0.3 = a3"
    unfolding a4_def a3_def by (rule round_double_literals)+
  have sum: "round_double (a4 + a3) = a7"
    unfolding a4_def a3_def a7_def by (rule round_double_literals)
  have half: "round_double (a7 / 2) = a7 / 2"
    using round_double_eqI [of "- 2" "a7 / 2"]
    by (simp add: a7_def round_half_even_def powr_minus_divide Let_def)
  have same: "round_double a7 = a7"
    using round_double_eqI [of "- 1" a7]
    by (simp add: a7_def round_half_even_def powr_minus_divide Let_def)
  have four: "round_double a4 = a4"
    using round_double_eqI [of "- 2" a4]
    by (simp add: a4_def round_half_even_def powr_minus_divide Let_def)
  have three: "round_double a3 = a3"
    using round_double_eqI [of "- 2" a3]
    by (simp add: a3_def round_half_even_def powr_minus_divide Let_def)
  have one: "round_double 1 = 1"
    using round_double_eqI [of 0 1] by (simp add: round_half_even_def powr_minus_divide Let_def)
  have qw: "questionWords ''what is rust'' = [''what'', ''rust'']"
    by (simp add: questionWords_def split_space_def toLowerCase_def lower_char_def)
  have d1: "docScore ''what is rust'' \<lparr>pageContent = ''what is rust'', metadata = []\<rparr> = Num a7"
    unfolding docScore_def qw js_literal_def lit
    by (simp add: toLowerCase_def lower_char_def js_of_nat_def Let_def one four three sum)
  have d2: "docScore ''what is rust'' \<lparr>pageContent = ''zzzz zz zzzz'', metadata = []\<rparr> = Num 0"
    unfolding docScore_def qw js_literal_def lit
    by (simp add: toLowerCase_def lower_char_def js_of_nat_def Let_def)
  have "calculateConfidence ''what is rust''
          [\<lparr>pageContent = ''what is rust'', metadata = []\<rparr>, \<lparr>pageContent = ''zzzz zz zzzz'', metadata = []\<rparr>]
        = Num (a7 / 2)"
  proof -
    have "a7 / 2 \<le> 1" by (simp add: a7_def)
    then have "min (a7 / 2) 1 = a7 / 2" by (rule min_absorb1)
    then show ?thesis
      by (simp add: calculateConfidence_def d1 d2 js_of_nat_def same half)
  qed
  then show ?thesis by (simp add: a7_def)
qed

subsection \<open>C1: the score lies in the unit interval\<close>

text \<open>
  C1 says that for every question and every list of chunks the score returned
  by \<^verbatim>\<open>calculateConfidence\<close> is in \<open>[0, 1]\<close>. The source divides the number of
  matched words by the number of question words without looking at the latter:
  for the question \<^verbatim>\<open>"who is he"\<close>, which has no word longer than three characters,
  and one chunk, the quotient is \<open>0 / 0\<close>, and the score is \<open>NaN\<close>, which is not in
  the interval.
\<close>

theorem calculateConfidence_short_words_NaN:
  "calculateConfidence ''who is he'' [\<lparr>pageContent = ''he is who'', metadata = []\<rparr>] = NaN
   \<and> \<not> in_unit_interval
         (calculateConfidence ''who is he'' [\<lparr>pageContent = ''he is who'', metadata = []\<rparr>])"
proof -
  have "questionWords ''who is he'' = []"
    by (simp add: questionWords_def split_space_def toLowerCase_def lower_char_def)
  then have "calculateConfidence ''who is he'' [\<lparr>pageContent = ''he is who'', metadata = []\<rparr>] = NaN"
    by (simp add: calculateConfidence_def docScore_NaN js_of_nat_def)
  then show ?thesis by (simp add: in_unit_interval_def)
qed

subsection \<open>C6: the formula of the score\<close>

text \<open>
  C6 as stated, with whitespace-split question words, fails: for the question
  \<^verbatim>\<open>"abcd\tefgh"\<close> (a tab between the words) and the single chunk \<^verbatim>\<open>"abcd"\<close> the
  source has one question word, the whole question, which the chunk does not
  contain, and returns 0; the formula of the claim has the two words \<^verbatim>\<open>abcd\<close>
  and \<^verbatim>\<open>efgh\<close>, of which the chunk contains one, and gives 0.15.
\<close>

theorem calculateConfidence_tab_counterexample:
  "calculateConfidence (''abcd'' @ [CHR 0x09] @ ''efgh'') [\<lparr>pageContent = ''abcd'', metadata = []\<rparr>]
     = Num 0
   \<and> spec_confidence whitespace_tokens (''abcd'' @ [CHR 0x09] @ ''efgh'')
        [\<lparr>pageContent = ''abcd'', metadata = []\<rparr>] = 0.15"
  by (simp add: calculateConfidence_def docScore_def questionWords_def split_space_def
      toLowerCase_def lower_char_def js_of_nat_def js_literal_def spec_confidence_def
      spec_chunk_score_def spec_question_words_def whitespace_tokens_def is_whitespace_def)

text \<open>
  C6 as amended: for a question with at least one question word (a piece of the
  lower-cased question between space characters, longer than three characters)
  and a non-empty list of fewer than \<open>2\<^sup>3\<^sup>2\<close> chunks, the score is a finite
  number \<open>v\<close>, the value in double-precision arithmetic of the formula whose
  exact value \<open>a\<close> is the average over the chunks of 0.4 if the lower-cased
  chunk contains the lower-cased question, plus 0.3 times the fraction of
  question words contained in the lower-cased chunk, plus 0.1 if the chunk is
  longer than 200 characters. The two agree up to the roundings of the
  arithmetic, \<open>n + 6\<close> of them for \<open>n\<close> chunks: \<open>v\<close> lies between
  \<open>a (1 - 2\<^sup>-\<^sup>5\<^sup>3)\<^sup>n\<^sup>+\<^sup>6\<close> and \<open>a (1 + 2\<^sup>-\<^sup>5\<^sup>3)\<^sup>n\<^sup>+\<^sup>6\<close>, hence within \<open>a / 2\<^sup>1\<^sup>9\<close>
  of \<open>a\<close>; they need not be equal. The score is not negative and below 1, so
  the clamp at 1 never changes it. And a chunk whose lower-cased content
  contains the lower-cased question scores strictly higher than a chunk of
  equal length whose lower-cased content does not.
\<close>

theorem calculateConfidence_formula:
  assumes "questionWords question \<noteq> []" and "docs \<noteq> []" and "length docs < 2 ^ 32"
  shows "(\<exists>v. calculateConfidence question docs = Num v
            \<and> js_div (score_loop question docs (Num 0)) (js_of_nat (length docs)) = Num v
            \<and> close_to (length docs + 6) v (spec_confidence space_tokens question docs)
            \<and> \<bar>v - spec_confidence space_tokens question docs\<bar>
                 \<le> spec_confidence space_tokens question docs / 2 ^ 19
            \<and> 0 \<le> v \<and> v < 1)
         \<and> spec_confidence space_tokens question docs
             = (\<Sum>c\<leftarrow>docs. spec_chunk_score space_tokens question c) / real (length docs)
         \<and> in_unit_interval (calculateConfidence question docs)
         \<and> (str_includes (toLowerCase (pageContent d1)) (toLowerCase question)
            \<and> \<not> str_includes (toLowerCase (pageContent d2)) (toLowerCase question)
            \<and> length (pageContent d1) = length (pageContent d2)
            \<longrightarrow> js_lt (calculateConfidence question [d2]) (calculateConfidence question [d1]))"
proof -
  note avg = spec_confidence_average [OF assms(2), of space_tokens question]
  from calculateConfidence_value [OF assms] obtain v where
    v: "calculateConfidence question docs = Num v"
       "js_div (score_loop question docs (Num 0)) (js_of_nat (length docs)) = Num v"
       "\<bar>v - spec_confidence space_tokens question docs\<bar>
          \<le> spec_confidence space_tokens question docs / 2 ^ 19"
       "0 \<le> v" "v < 1"
    by blast
  from calculateConfidence_close [OF assms(1,2)] v(2)
  have close: "close_to (length docs + 6) v (spec_confidence space_tokens question docs)"
    by (simp add: avg)
  have unit: "in_unit_interval (calculateConfidence question docs)"
    using v(4,5) by (simp add: v(1) in_unit_interval_def)
  have order: "js_lt (calculateConfidence question [d2]) (calculateConfidence question [d1])"
    if "str_includes (toLowerCase (pageContent d1)) (toLowerCase question)"
      and "\<not> str_includes (toLowerCase (pageContent d2)) (toLowerCase question)"
      and "length (pageContent d1) = length (pageContent d2)"
    using calculateConfidence_single_order [OF assms(1) that] .
  from v close unit order avg show ?thesis by blast
qed

theorem calculateConfidence_formula_witness:
  "questionWords ''what is rust'' \<noteq> []
   \<and> calculateConfidence ''what is rust''
       [\<lparr>pageContent = ''what is rust'', metadata = []\<rparr>, \<lparr>pageContent = ''zzzz zz zzzz'', metadata = []\<rparr>]
     = Num (6305039478318694 / 2 ^ 54)
   \<and> spec_confidence space_tokens ''what is rust''
       [\<lparr>pageContent = ''what is rust'', metadata = []\<rparr>, \<lparr>pageContent = ''zzzz zz zzzz'', metadata = []\<rparr>]
     = 0.35
   \<and> \<bar>6305039478318694 / 2 ^ 54 - 0.35\<bar> \<le> (0.35 / 2 ^ 19 :: real)
   \<and> (6305039478318694 / 2 ^ 54 :: real) < 0.35
   \<and> js_lt (calculateConfidence ''what is rust'' [\<lparr>pageContent = ''zzzz zz zzzz'', metadata = []\<rparr>])
           (calculateConfidence ''what is rust'' [\<lparr>pageContent = ''what is rust'', metadata = []\<rparr>])"
proof -
  let ?q = "''what is rust''"
  let ?d1 = "\<lparr>pageContent = ''what is rust'', metadata = []\<rparr>"
  let ?d2 = "\<lparr>pageContent = ''zzzz zz zzzz'', metadata = []\<rparr>"
  have qw: "questionWords ?q = [''what'', ''rust'']"
    by (simp add: questionWords_def split_space_def toLowerCase_def lower_char_def)
  then have ne: "questionWords ?q \<noteq> []" by simp
  have c1: "str_includes (toLowerCase (pageContent ?d1)) (toLowerCase ?q)"
    by (simp add: toLowerCase_def lower_char_def)
  have c2: "\<not> str_includes (toLowerCase (pageContent ?d2)) (toLowerCase ?q)"
    by (simp add: toLowerCase_def lower_char_def)
  have s1: "spec_chunk_score space_tokens ?q ?d1 = 0.7"
    using qw c1 by (simp add: spec_chunk_score_def questionWords_space_tokens [symmetric]
        toLowerCase_def lower_char_def)
  have s2: "spec_chunk_score space_tokens ?q ?d2 = 0"
    using qw c2 by (simp add: spec_chunk_score_def questionWords_space_tokens [symmetric]
        toLowerCase_def lower_char_def)
  have avg: "spec_confidence space_tokens ?q [?d1, ?d2] = 0.35"
    by (simp add: spec_confidence_def s1 s2)
  have below: "(6305039478318694 / 2 ^ 54 :: real) < 0.35" by simp
  have "[?d1, ?d2] \<noteq> []" and "length [?d1, ?d2] < 2 ^ 32" by simp_all
  from calculateConfidence_formula [OF ne this, of ?d1 ?d2] c1 c2
  have "(\<exists>v. calculateConfidence ?q [?d1, ?d2] = Num v
            \<and> \<bar>v - spec_confidence space_tokens ?q [?d1, ?d2]\<bar>
                \<le> spec_confidence space_tokens ?q [?d1, ?d2] / 2 ^ 19)
         \<and> js_lt (calculateConfidence ?q [?d2]) (calculateConfidence ?q [?d1])"
    by auto
  then have "\<bar>6305039478318694 / 2 ^ 54 - 0.35\<bar> \<le> (0.35 / 2 ^ 19 :: real)
             \<and> js_lt (calculateConfidence ?q [?d2]) (calculateConfidence ?q [?d1])"
    unfolding calculateConfidence_example avg by simp
  with ne avg below show ?thesis unfolding calculateConfidence_example by blast
qed

section \<open>Properties of the pipeline\<close>

lemmas action_defs = ret_def throw_def bnd_def try_catch_def modify_def call_ext_def

lemmas qdrant_defs = clusterStatus_def embedQuery_def getCollections_def getCollection_def
  deleteCollection_def createCollection_def qdrant_query_def

lemmas init_defs = initializeCollection_def testQdrantConnection_def detectEmbeddingDimensions_def
  testCollectionQuery_def createCollectionWithDimensions_def delete_and_create_def
  ensure_collection_def

subsection \<open>C10: the fragments of the streamed answer\<close>

lemma join_nonempty: "x \<noteq> [] \<Longrightarrow> join sep (x # xs) \<noteq> []"
  by (cases xs) simp_all

lemma js_String_nonempty:
  "truthy c \<Longrightarrow> c \<noteq> CParts [] \<Longrightarrow> js_String c \<noteq> []"
proof (cases c)
  case (CParts ps)
  assume "c \<noteq> CParts []"
  with CParts obtain p ps' where "ps = p # ps'" by (cases ps) auto
  with CParts show ?thesis by (simp add: join_nonempty)
qed simp_all

text \<open>
  C10 as stated fails: a chunk whose content is the empty array is truthy and
  not a string, so the second branch emits its string coercion, which is the
  empty string.
\<close>

theorem convertStream_empty_array_counterexample:
  "convertStreamToStringIterable [CString ''ab'', CParts []] = [''ab'', []]"
  by simp

text \<open>
  C10 as amended: the fragments yielded are the string coercions of the chunks
  with truthy content, in order (a string is its own coercion); chunks with
  falsy content are dropped; and every fragment is a non-empty string unless
  the stream has a chunk whose content is the empty array.
\<close>

theorem convertStream_fragments:
  "convertStreamToStringIterable stream = map js_String (filter truthy stream)
   \<and> (CParts [] \<notin> set stream \<longrightarrow> [] \<notin> set (convertStreamToStringIterable stream))"
proof -
  have eq: "convertStreamToStringIterable stream = map js_String (filter truthy stream)"
    by (induction stream) (auto split: message_content.splits)
  have "[] \<notin> set (map js_String (filter truthy stream))" if absent: "CParts [] \<notin> set stream"
  proof
    assume "[] \<in> set (map js_String (filter truthy stream))"
    then obtain c where c: "c \<in> set stream" "truthy c" "js_String c = []" by auto
    then have "c = CParts []" using js_String_nonempty by blast
    with c(1) absent show False by simp
  qed
  with eq show ?thesis by simp
qed

theorem convertStream_fragments_witness:
  "CParts [] \<notin> set [CString ''Hel'', CString [], CUndefined, CParts [TextPart ''lo'']]
   \<and> convertStreamToStringIterable [CString ''Hel'', CString [], CUndefined, CParts [TextPart ''lo'']]
       = [''Hel'', ''[object Object]'']
   \<and> [] \<notin> set (convertStreamToStringIterable
                   [CString ''Hel'', CString [], CUndefined, CParts [TextPart ''lo'']])"
  using convertStream_fragments [of "[CString ''Hel'', CString [], CUndefined, CParts [TextPart ''lo'']]"]
  by simp

subsection \<open>C8: statistics never raise\<close>

text \<open>
  C8: \<^verbatim>\<open>getStats\<close> returns a value for every environment and every state, and
  when the service is not initialized, or the read of the collection throws,
  or the collection does not exist, the value has zero counts and is not
  ready.
\<close>

theorem getStats_never_raises:
  "\<exists>st. fst (getStats e s) = Inr st
        \<and> (\<not> isInitialized s
             \<or> fault e (length (trace s)) (GetCollection (collectionName e)) \<noteq> None
             \<or> map_of (store s) (collectionName e) = None
           \<longrightarrow> totalPoints st = 0 \<and> vectorsCount st = 0 \<and> \<not> isReady st)"
  by (auto simp: getStats_def getCollectionStats_def getCollection_def action_defs Let_def
      split: option.splits)

theorem getStats_never_raises_witness:
  "fault (calm\<lparr>fault := \<lambda>n c. Some (new_Error ''connection refused'')\<rparr>)
         (length (trace (fresh\<lparr>isInitialized := True, retrievalChain := True\<rparr>)))
         (GetCollection (collectionName calm)) \<noteq> None
   \<and> (\<exists>st. fst (getStats (calm\<lparr>fault := \<lambda>n c. Some (new_Error ''connection refused'')\<rparr>)
                          (fresh\<lparr>isInitialized := True, retrievalChain := True\<rparr>)) = Inr st
           \<and> totalPoints st = 0 \<and> vectorsCount st = 0 \<and> \<not> isReady st)"
  using getStats_never_raises [of "calm\<lparr>fault := \<lambda>n c. Some (new_Error ''connection refused'')\<rparr>"
      "fresh\<lparr>isInitialized := True, retrievalChain := True\<rparr>"]
  by (simp add: calm_def fresh_def)

subsection \<open>C7: a second initialization does nothing\<close>

lemma initialize_success_flag:
  "fst (initialize e s) = Inr () \<Longrightarrow> isInitialized (snd (initialize e s))"
  by (auto simp: initialize_def action_defs split: prod.splits sum.splits if_splits)

lemma initialize_calm_fresh:
  "initialize calm fresh =
     (Inr (), \<lparr>store = [(''docs'', \<lparr>vectors_size = Some 3, points = []\<rparr>)],
               trace = [ClusterStatus, EmbedQuery ''test dimension detection'', GetCollections,
                        CreateCollection ''docs'' 3],
               vectorStore = True, retrievalChain = False, actualVectorSize = Some 3,
               isInitialized = True\<rparr>)"
  by (simp add: initialize_def init_defs qdrant_defs action_defs calm_def fresh_def new_Error_def)

text \<open>
  C7: after a call of \<^verbatim>\<open>initialize\<close> that returned, a second call returns and
  leaves the state as it is: the fields of the service, the collections of
  the server, and the trace of calls, so that no call is made at all and in
  particular no collection is created.
\<close>

theorem initialize_idempotent:
  assumes "fst (initialize e s) = Inr ()"
  shows "initialize e (snd (initialize e s)) = (Inr (), snd (initialize e s))
         \<and> trace (snd (initialize e (snd (initialize e s)))) = trace (snd (initialize e s))"
  using initialize_success_flag [OF assms] by (simp add: initialize_def)

theorem initialize_idempotent_witness:
  "fst (initialize calm fresh) = Inr ()
   \<and> initialize calm (snd (initialize calm fresh)) = (Inr (), snd (initialize calm fresh))
   \<and> trace (snd (initialize calm (snd (initialize calm fresh))))
       = [ClusterStatus, EmbedQuery ''test dimension detection'', GetCollections,
          CreateCollection ''docs'' 3]"
proof -
  have ok: "fst (initialize calm fresh) = Inr ()" by (simp add: initialize_calm_fresh)
  from initialize_idempotent [OF ok] ok show ?thesis by (simp add: initialize_calm_fresh)
qed

subsection \<open>C9: clearing\<close>

lemma map_of_filter_fst_neq: "map_of (filter (\<lambda>p. fst p \<noteq> name) st) name = None"
  by (induction st) auto

text \<open>
  C9 as stated fails: \<^verbatim>\<open>clearDocuments\<close> deletes the collection only when
  \<^verbatim>\<open>this.vectorStore\<close> is set. In a process that has just started, while the
  server still holds the collection of an earlier run, \<^verbatim>\<open>clearAll\<close> returns and
  the collection is still there.
\<close>

theorem clearAll_no_handle_counterexample:
  "fst (clearAll calm (fresh\<lparr>store := [(''docs'', \<lparr>vectors_size = Some 3, points = []\<rparr>)]\<rparr>)) = Inr ()
   \<and> map_of (store (snd (clearAll calm
         (fresh\<lparr>store := [(''docs'', \<lparr>vectors_size = Some 3, points = []\<rparr>)]\<rparr>)))) (collectionName calm)
       = Some \<lparr>vectors_size = Some 3, points = []\<rparr>"
  by (simp add: clearAll_def clearDocuments_def action_defs calm_def fresh_def)

text \<open>
  C9 as amended: after \<^verbatim>\<open>clearAll\<close> has returned, from any state, the vector
  store handle, the retrieval chain, the cached width and the initialized flag
  are cleared; if the vector store handle was set before the call, the
  collection has been deleted from the server, by the one call that was made;
  if it was not set, no call was made and the server is as it was.
\<close>

theorem clearAll_resets:
  assumes "fst (clearAll e s) = Inr ()"
  shows "\<not> vectorStore (snd (clearAll e s)) \<and> \<not> retrievalChain (snd (clearAll e s))
         \<and> actualVectorSize (snd (clearAll e s)) = None \<and> \<not> isInitialized (snd (clearAll e s))
         \<and> (vectorStore s \<longrightarrow>
              map_of (store (snd (clearAll e s))) (collectionName e) = None
              \<and> trace (snd (clearAll e s)) = trace s @ [DeleteCollection (collectionName e)])
         \<and> (\<not> vectorStore s \<longrightarrow>
              store (snd (clearAll e s)) = store s \<and> trace (snd (clearAll e s)) = trace s)"
  using assms
  by (auto simp: clearAll_def clearDocuments_def deleteCollection_def action_defs Let_def
      map_of_filter_fst_neq split: option.splits if_splits)

theorem clearAll_resets_witness:
  "fst (clearAll calm (snd (initialize calm fresh))) = Inr ()
   \<and> vectorStore (snd (initialize calm fresh))
   \<and> \<not> vectorStore (snd (clearAll calm (snd (initialize calm fresh))))
   \<and> \<not> retrievalChain (snd (clearAll calm (snd (initialize calm fresh))))
   \<and> actualVectorSize (snd (clearAll calm (snd (initialize calm fresh)))) = None
   \<and> \<not> isInitialized (snd (clearAll calm (snd (initialize calm fresh))))
   \<and> map_of (store (snd (clearAll calm (snd (initialize calm fresh))))) (collectionName calm) = None"
proof -
  have ok: "fst (clearAll calm (snd (initialize calm fresh))) = Inr ()"
    by (simp add: initialize_calm_fresh clearAll_def clearDocuments_def deleteCollection_def
        action_defs calm_def)
  have vs: "vectorStore (snd (initialize calm fresh))" by (simp add: initialize_calm_fresh)
  from clearAll_resets [OF ok] ok vs show ?thesis by simp
qed

subsection \<open>C4: the retrieval cascade\<close>

lemmas vs_defs = vs_similaritySearch_def vs_retriever_invoke_def vs_addDocuments_def

lemma getCollectionStats_state:
  "snd (getCollectionStats e s) = s\<lparr>trace := trace s @ [GetCollection (collectionName e)]\<rparr>"
  by (auto simp: getCollectionStats_def getCollection_def action_defs Let_def split: option.splits)

lemma getCollectionStats_returns: "\<exists>st. fst (getCollectionStats e s) = Inr st"
  by (auto simp: getCollectionStats_def getCollection_def action_defs Let_def split: option.splits)

lemma askQuestion_sources:
  "fst (askQuestion e q s) = Inr result \<longrightarrow>
     fst (retrieveDocs e q (s\<lparr>trace := trace s @ [GetCollection (collectionName e), DateNow]\<rparr>))
     = Inr (sources result)
     \<and> chunksUsed result = length (sources result)"
proof -
  obtain st where "fst (getCollectionStats e s) = Inr st"
    using getCollectionStats_returns by blast
  then have st: "getCollectionStats e s
                 = (Inr st, s\<lparr>trace := trace s @ [GetCollection (collectionName e)]\<rparr>)"
    using getCollectionStats_state [of e s] by (simp add: prod_eq_iff)
  show ?thesis
    using st
    by (auto simp: askQuestion_def bnd_def try_catch_def throw_def ret_def date_now_def Let_def
        split: prod.splits sum.splits if_splits)
qed

text \<open>
  C4: with the vector store handle set, the retrieval cascade calls the
  similarity search first and returns its documents if it does not throw; it
  calls the retriever only after the similarity search has thrown; it embeds
  the question and queries the server only after both have thrown, and then
  returns one document per point of that query, in the order of the points,
  with the \<^verbatim>\<open>pageContent\<close> and the \<^verbatim>\<open>metadata\<close> of the payload of the point as
  they are (the empty string and the empty record where the payload has
  none); and when the embedding or the query throws as well, it throws an
  error whose message ends with the string form of that last failure. The
  trace shows which calls were made, and in which order. Whatever the cascade
  returns is what \<^verbatim>\<open>askQuestion\<close> returns as the sources of its result, and
  their number as \<^verbatim>\<open>chunksUsed\<close>.
\<close>

theorem retrieveDocs_fallback:
  assumes "vectorStore s"
  shows "(fault e (length (trace s)) (SimilaritySearch q 5) = None \<longrightarrow>
            retrieveDocs e q s
            = (Inr (similaritySearch_result e (length (trace s)) q),
               s\<lparr>trace := trace s @ [SimilaritySearch q 5]\<rparr>))
       \<and> (fault e (length (trace s)) (SimilaritySearch q 5) \<noteq> None
          \<and> fault e (length (trace s) + 1) (RetrieverInvoke q 5) = None \<longrightarrow>
            retrieveDocs e q s
            = (Inr (retriever_result e (length (trace s) + 1) q),
               s\<lparr>trace := trace s @ [SimilaritySearch q 5, RetrieverInvoke q 5]\<rparr>))
       \<and> (fault e (length (trace s)) (SimilaritySearch q 5) \<noteq> None
          \<and> fault e (length (trace s) + 1) (RetrieverInvoke q 5) \<noteq> None
          \<and> fault e (length (trace s) + 2) (EmbedQuery q) = None
          \<and> fault e (length (trace s) + 3)
               (Query (collectionName e) (embedQuery_result e (length (trace s) + 2) q) 5) = None \<longrightarrow>
            retrieveDocs e q s
            = (Inr (map (\<lambda>p. \<lparr>pageContent = (case payload_pageContent p of None \<Rightarrow> [] | Some c \<Rightarrow> c),
                              metadata = (case payload_metadata p of None \<Rightarrow> [] | Some m \<Rightarrow> m)\<rparr>)
                      (query_result e (length (trace s) + 3))),
               s\<lparr>trace := trace s @ [SimilaritySearch q 5, RetrieverInvoke q 5, EmbedQuery q,
                    Query (collectionName e) (embedQuery_result e (length (trace s) + 2) q) 5]\<rparr>))
       \<and> (fault e (length (trace s)) (SimilaritySearch q 5) \<noteq> None
          \<and> fault e (length (trace s) + 1) (RetrieverInvoke q 5) \<noteq> None
          \<and> fault e (length (trace s) + 2) (EmbedQuery q) = Some err \<longrightarrow>
            retrieveDocs e q s
            = (Inl (new_Error (''All retrieval methods failed: '' @ err_toString err)),
               s\<lparr>trace := trace s @ [SimilaritySearch q 5, RetrieverInvoke q 5, EmbedQuery q]\<rparr>))
       \<and> (fault e (length (trace s)) (SimilaritySearch q 5) \<noteq> None
          \<and> fault e (length (trace s) + 1) (RetrieverInvoke q 5) \<noteq> None
          \<and> fault e (length (trace s) + 2) (EmbedQuery q) = None
          \<and> fault e (length (trace s) + 3)
               (Query (collectionName e) (embedQuery_result e (length (trace s) + 2) q) 5) = Some err \<longrightarrow>
            retrieveDocs e q s
            = (Inl (new_Error (''All retrieval methods failed: '' @ err_toString err)),
               s\<lparr>trace := trace s @ [SimilaritySearch q 5, RetrieverInvoke q 5, EmbedQuery q,
                    Query (collectionName e) (embedQuery_result e (length (trace s) + 2) q) 5]\<rparr>))
       \<and> (fst (askQuestion e q s) = Inr result \<longrightarrow>
            fst (retrieveDocs e q (s\<lparr>trace := trace s @ [GetCollection (collectionName e), DateNow]\<rparr>))
            = Inr (sources result)
            \<and> chunksUsed result = length (sources result))"
proof -
  have cascade: "?thesis" if "fst (askQuestion e q s) = Inr result \<longrightarrow>
            fst (retrieveDocs e q (s\<lparr>trace := trace s @ [GetCollection (collectionName e), DateNow]\<rparr>))
            = Inr (sources result)
            \<and> chunksUsed result = length (sources result)"
    using assms that
    by (auto simp: retrieveDocs_def vs_defs embedQuery_def qdrant_query_def action_defs Let_def
        numeral_3_eq_3 document_of_point_def)
  show ?thesis by (rule cascade) (rule askQuestion_sources)
qed

theorem retrieveDocs_fallback_witness:
  "vectorStore (fresh\<lparr>vectorStore := True\<rparr>)
   \<and> retrieveDocs
        (calm\<lparr>fault := \<lambda>n c. if n < 2 then Some (new_Error ''search failed'') else None,
              query_result := \<lambda>n. [\<lparr>payload_content = None,
                                      payload_pageContent = Some ''Paris is the capital of France.'',
                                      payload_metadata = Some [(''source'', ''doc1'')]\<rparr>,
                                     \<lparr>payload_content = Some ''The Eiffel Tower is in Paris.'',
                                      payload_pageContent = None,
                                      payload_metadata = None\<rparr>]\<rparr>)
        ''capital of France'' (fresh\<lparr>vectorStore := True\<rparr>)
      = (Inr [\<lparr>pageContent = ''Paris is the capital of France.'', metadata = [(''source'', ''doc1'')]\<rparr>,
              \<lparr>pageContent = [], metadata = []\<rparr>],
         fresh\<lparr>vectorStore := True,
               trace := [SimilaritySearch ''capital of France'' 5,
                         RetrieverInvoke ''capital of France'' 5,
                         EmbedQuery ''capital of France'',
                         Query ''docs'' [0.1, 0.2, 0.3] 5]\<rparr>)
   \<and> retrieveDocs (calm\<lparr>fault := \<lambda>n c. Some (JsError ''ApiError'' ''Bad Request'')\<rparr>)
        ''capital of France'' (fresh\<lparr>vectorStore := True\<rparr>)
      = (Inl (JsError ''Error'' ''All retrieval methods failed: ApiError: Bad Request''),
         fresh\<lparr>vectorStore := True,
               trace := [SimilaritySearch ''capital of France'' 5,
                         RetrieverInvoke ''capital of France'' 5,
                         EmbedQuery ''capital of France'']\<rparr>)"
proof -
  have vs: "vectorStore (fresh\<lparr>vectorStore := True\<rparr>)" by simp
  from retrieveDocs_fallback [OF vs,
      of "calm\<lparr>fault := \<lambda>n c. if n < 2 then Some (new_Error ''search failed'') else None,
              query_result := \<lambda>n. [\<lparr>payload_content = None,
                                      payload_pageContent = Some ''Paris is the capital of France.'',
                                      payload_metadata = Some [(''source'', ''doc1'')]\<rparr>,
                                     \<lparr>payload_content = Some ''The Eiffel Tower is in Paris.'',
                                      payload_pageContent = None,
                                      payload_metadata = None\<rparr>]\<rparr>" "''capital of France''"]
    retrieveDocs_fallback [OF vs,
      of "calm\<lparr>fault := \<lambda>n c. Some (JsError ''ApiError'' ''Bad Request'')\<rparr>"
         "''capital of France''" "JsError ''ApiError'' ''Bad Request''"]
  show ?thesis
    by (simp add: calm_def fresh_def document_of_point_def new_Error_def)
qed

subsection \<open>C2: a query against an empty collection\<close>

text \<open>
  C2 as stated fails: with a collection that has no point, \<^verbatim>\<open>askQuestion\<close>
  throws inside its \<^verbatim>\<open>try\<close> block, and the \<^verbatim>\<open>catch\<close> block throws the error on
  with a prefix. No result with confidence 0 is returned.
\<close>

theorem askQuestion_empty_collection_counterexample:
  "askQuestion calm ''what is rust'' ready_empty
   = (Inl (JsError ''Error'' ''Failed to answer question: Error: No documents found in the collection. Please upload documents first.''),
      ready_empty\<lparr>trace := [GetCollection ''docs'']\<rparr>)"
  by (simp add: askQuestion_def getCollectionStats_def getCollection_def action_defs calm_def
      ready_empty_def new_Error_def width_or_768_def)

lemma askQuestion_without_documents:
  assumes "\<not> retrievalChain s \<or> \<not> vectorStore s"
  shows "askQuestion e q s
         = (Inl (new_Error ''No documents processed yet. Please upload and process a document first.''), s)"
  using assms by (auto simp: askQuestion_def)

lemma queryDocument_initialized:
  assumes "isInitialized s" and "askQuestion e q s = (Inl (JsError ''Error'' msg), s')"
  shows "queryDocument e q s = (Inr (Inl (''Error querying document: '' @ msg)), s')"
  using assms by (simp add: queryDocument_def initialize_def bnd_def try_catch_def ret_def)

text \<open>
  C2 as amended. Let the statistics of the collection report a point count of
  zero. Then a batch query never returns a result and attempts none of the
  three retrieval tiers: \<^verbatim>\<open>askQuestion\<close> throws, and the only call it can have
  made is the read of the collection. In detail: when the retrieval chain or
  the vector store handle is not set, as after \<^verbatim>\<open>initialize\<close> alone, it throws
  "No documents processed yet. Please upload and process a document first."
  without any call, whatever the point count; when both are set, it reads
  the collection and throws "Failed to answer question: Error: No documents
  found in the collection. Please upload documents first."; and
  \<^verbatim>\<open>queryDocument\<close> of a service whose initialized flag is set returns the
  message in an error object. The result with confidence 0, no sources and
  the fixed not-found answer is what \<^verbatim>\<open>askQuestion\<close> returns when the chain
  and the handle are set, the point count is not zero, and the retrieval
  cascade returns no document.
\<close>

theorem askQuestion_empty_collection:
  assumes "fst (getCollectionStats e s) = Inr st"
  shows "(totalPoints st = 0 \<longrightarrow>
            (\<exists>err. fst (askQuestion e q s) = Inl err)
            \<and> set (drop (length (trace s)) (trace (snd (askQuestion e q s))))
                \<subseteq> {GetCollection (collectionName e)})
       \<and> (\<not> retrievalChain s \<or> \<not> vectorStore s \<longrightarrow>
            askQuestion e q s
            = (Inl (new_Error ''No documents processed yet. Please upload and process a document first.''), s)
            \<and> (isInitialized s \<longrightarrow>
                 queryDocument e q s
                 = (Inr (Inl ''Error querying document: No documents processed yet. Please upload and process a document first.''), s)))
       \<and> (retrievalChain s \<and> vectorStore s \<and> totalPoints st = 0 \<longrightarrow>
            askQuestion e q s
            = (Inl (new_Error ''Failed to answer question: Error: No documents found in the collection. Please upload documents first.''),
               s\<lparr>trace := trace s @ [GetCollection (collectionName e)]\<rparr>)
            \<and> (isInitialized s \<longrightarrow>
                 queryDocument e q s
                 = (Inr (Inl ''Error querying document: Failed to answer question: Error: No documents found in the collection. Please upload documents first.''),
                    s\<lparr>trace := trace s @ [GetCollection (collectionName e)]\<rparr>)))
       \<and> (retrievalChain s \<and> vectorStore s \<and> totalPoints st \<noteq> 0
          \<and> retrieveDocs e q (s\<lparr>trace := trace s @ [GetCollection (collectionName e), DateNow]\<rparr>)
              = (Inr [], s2) \<longrightarrow>
            askQuestion e q s
            = (Inr \<lparr>answer = not_found_answer, sources = [], confidence = Num 0,
                    retrievalTime = clock_ms e (length (trace s2)) - clock_ms e (length (trace s) + 1),
                    generationTime = 0, chunksUsed = 0\<rparr>,
               s2\<lparr>trace := trace s2 @ [DateNow]\<rparr>))"
proof -
  let ?none = "new_Error ''No documents processed yet. Please upload and process a document first.''"
  let ?empty = "new_Error ''Failed to answer question: Error: No documents found in the collection. Please upload documents first.''"
  let ?s1 = "s\<lparr>trace := trace s @ [GetCollection (collectionName e)]\<rparr>"
  have st: "getCollectionStats e s = (Inr st, ?s1)"
    using assms getCollectionStats_state [of e s] by (simp add: prod_eq_iff)
  have unset: "askQuestion e q s = (Inl ?none, s)" if "\<not> retrievalChain s \<or> \<not> vectorStore s"
    using that by (rule askQuestion_without_documents)
  have unset_query: "queryDocument e q s
      = (Inr (Inl ''Error querying document: No documents processed yet. Please upload and process a document first.''), s)"
    if "\<not> retrievalChain s \<or> \<not> vectorStore s" "isInitialized s"
    using queryDocument_initialized [OF that(2), of e q _ s] unset [OF that(1)]
    by (simp add: new_Error_def)
  have zero: "askQuestion e q s = (Inl ?empty, ?s1)"
    if "retrievalChain s" "vectorStore s" "totalPoints st = 0"
    using that st by (simp add: askQuestion_def bnd_def try_catch_def throw_def new_Error_def)
  have zero_query: "queryDocument e q s
      = (Inr (Inl ''Error querying document: Failed to answer question: Error: No documents found in the collection. Please upload documents first.''), ?s1)"
    if "retrievalChain s" "vectorStore s" "totalPoints st = 0" "isInitialized s"
    using queryDocument_initialized [OF that(4), of e q _ ?s1] zero [OF that(1,2,3)]
    by (simp add: new_Error_def)
  have never: "(\<exists>err. fst (askQuestion e q s) = Inl err)
            \<and> set (drop (length (trace s)) (trace (snd (askQuestion e q s))))
                \<subseteq> {GetCollection (collectionName e)}"
    if "totalPoints st = 0"
  proof (cases "retrievalChain s \<and> vectorStore s")
    case True
    then show ?thesis using zero [OF _ _ that] by simp
  next
    case False
    then show ?thesis using unset by auto
  qed
  have found_none: "askQuestion e q s
            = (Inr \<lparr>answer = not_found_answer, sources = [], confidence = Num 0,
                    retrievalTime = clock_ms e (length (trace s2)) - clock_ms e (length (trace s) + 1),
                    generationTime = 0, chunksUsed = 0\<rparr>,
               s2\<lparr>trace := trace s2 @ [DateNow]\<rparr>)"
    if "retrievalChain s" "vectorStore s" "totalPoints st \<noteq> 0"
      "retrieveDocs e q (s\<lparr>trace := trace s @ [GetCollection (collectionName e), DateNow]\<rparr>) = (Inr [], s2)"
    using that st
    by (simp add: askQuestion_def bnd_def try_catch_def throw_def ret_def date_now_def Let_def)
  from never unset unset_query zero zero_query found_none show ?thesis by blast
qed

theorem askQuestion_empty_collection_witness:
  "retrievalChain ready_empty \<and> vectorStore ready_empty \<and> isInitialized ready_empty
   \<and> fst (getCollectionStats calm ready_empty)
       = Inr \<lparr>totalPoints = 0, vectorsCount = 0, stats_collectionName = ''docs'', isReady = True,
              vectorDimensions = 3\<rparr>
   \<and> queryDocument calm ''what is rust'' ready_empty
       = (Inr (Inl ''Error querying document: Failed to answer question: Error: No documents found in the collection. Please upload documents first.''),
          ready_empty\<lparr>trace := [GetCollection ''docs'']\<rparr>)
   \<and> \<not> retrievalChain (snd (initialize calm fresh)) \<and> isInitialized (snd (initialize calm fresh))
   \<and> fst (getCollectionStats calm (snd (initialize calm fresh)))
       = Inr \<lparr>totalPoints = 0, vectorsCount = 0, stats_collectionName = ''docs'', isReady = False,
              vectorDimensions = 3\<rparr>
   \<and> queryDocument calm ''what is rust'' (snd (initialize calm fresh))
       = (Inr (Inl ''Error querying document: No documents processed yet. Please upload and process a document first.''),
          snd (initialize calm fresh))
   \<and> fst (getCollectionStats (calm\<lparr>vectors_count_result := \<lambda>n. Some 1\<rparr>)
            (ready_empty\<lparr>store := [(''docs'', \<lparr>vectors_size = Some 3,
                                               points = [point_of_document \<lparr>pageContent = ''go'', metadata = []\<rparr>]\<rparr>)]\<rparr>))
       = Inr \<lparr>totalPoints = 1, vectorsCount = 1, stats_collectionName = ''docs'', isReady = True,
              vectorDimensions = 3\<rparr>
   \<and> fst (askQuestion (calm\<lparr>vectors_count_result := \<lambda>n. Some 1\<rparr>) ''what is rust''
            (ready_empty\<lparr>store := [(''docs'', \<lparr>vectors_size = Some 3,
                                               points = [point_of_document \<lparr>pageContent = ''go'', metadata = []\<rparr>]\<rparr>)]\<rparr>))
       = Inr \<lparr>answer = not_found_answer, sources = [], confidence = Num 0,
              retrievalTime = 2, generationTime = 0, chunksUsed = 0\<rparr>"
proof -
  let ?e1 = "calm\<lparr>vectors_count_result := \<lambda>n. Some 1\<rparr>"
  let ?s0 = "snd (initialize calm fresh)"
  let ?s1 = "ready_empty\<lparr>store := [(''docs'', \<lparr>vectors_size = Some 3,
                points = [point_of_document \<lparr>pageContent = ''go'', metadata = []\<rparr>]\<rparr>)]\<rparr>"
  have rc: "retrievalChain ready_empty" "vectorStore ready_empty" "isInitialized ready_empty"
    by (simp_all add: ready_empty_def)
  have st: "fst (getCollectionStats calm ready_empty)
       = Inr \<lparr>totalPoints = 0, vectorsCount = 0, stats_collectionName = ''docs'', isReady = True,
              vectorDimensions = 3\<rparr>"
    by (simp add: getCollectionStats_def getCollection_def action_defs calm_def ready_empty_def
        width_or_768_def)
  have rc0: "\<not> retrievalChain ?s0" "isInitialized ?s0" by (simp_all add: initialize_calm_fresh)
  have st0: "fst (getCollectionStats calm ?s0)
       = Inr \<lparr>totalPoints = 0, vectorsCount = 0, stats_collectionName = ''docs'', isReady = False,
              vectorDimensions = 3\<rparr>"
    unfolding initialize_calm_fresh snd_conv
    by (simp add: getCollectionStats_def getCollection_def action_defs calm_def width_or_768_def)
  have rc1: "retrievalChain ?s1" "vectorStore ?s1" by (simp_all add: ready_empty_def)
  have st1: "fst (getCollectionStats ?e1 ?s1)
       = Inr \<lparr>totalPoints = 1, vectorsCount = 1, stats_collectionName = ''docs'', isReady = True,
              vectorDimensions = 3\<rparr>"
    by (simp add: getCollectionStats_def getCollection_def action_defs calm_def ready_empty_def
        width_or_768_def)
  have rd: "retrieveDocs ?e1 ''what is rust''
              (?s1\<lparr>trace := trace ?s1 @ [GetCollection (collectionName ?e1), DateNow]\<rparr>)
            = (Inr [], ?s1\<lparr>trace := [GetCollection ''docs'', DateNow,
                                      SimilaritySearch ''what is rust'' 5]\<rparr>)"
    by (simp add: retrieveDocs_def vs_defs action_defs calm_def ready_empty_def)
  have w: "queryDocument calm ''what is rust'' ready_empty
       = (Inr (Inl ''Error querying document: Failed to answer question: Error: No documents found in the collection. Please upload documents first.''),
          ready_empty\<lparr>trace := [GetCollection ''docs'']\<rparr>)"
    using askQuestion_empty_collection [OF st, of "''what is rust''"] rc
    by (simp add: calm_def ready_empty_def)
  have w0: "queryDocument calm ''what is rust'' ?s0
       = (Inr (Inl ''Error querying document: No documents processed yet. Please upload and process a document first.''),
          ?s0)"
    using askQuestion_empty_collection [OF st0, of "''what is rust''"] rc0 by blast
  have w1: "fst (askQuestion ?e1 ''what is rust'' ?s1)
       = Inr \<lparr>answer = not_found_answer, sources = [], confidence = Num 0,
              retrievalTime = 2, generationTime = 0, chunksUsed = 0\<rparr>"
    using askQuestion_empty_collection [OF st1, of "''what is rust''"
      "?s1\<lparr>trace := [GetCollection ''docs'', DateNow, SimilaritySearch ''what is rust'' 5]\<rparr>"]
      rc1 rd
    by (simp add: calm_def ready_empty_def)
  from rc rc0 st st0 st1 w w0 w1 show ?thesis by blast
qed

subsection \<open>C3: the width of the collection after initialization\<close>

lemma find_name_iff: "(find (\<lambda>col. col = name) (map fst st) \<noteq> None) = (map_of st name \<noteq> None)"
  by (induction st) auto

lemma find_name_None_iff: "(find (\<lambda>col. col = name) (map fst st) = None) = (map_of st name = None)"
  using find_name_iff [of name st] by blast

lemma in_fst_iff: "(name \<in> fst ` set st) = (map_of st name \<noteq> None)"
  by (induction st) auto

lemma recreated_mono: "recreated e d n s' \<Longrightarrow> m \<le> n \<Longrightarrow> recreated e d m s'"
  using set_drop_subset_set_drop [of m n "trace s'"] by (auto simp: recreated_def)

lemma same_fields_trans: "same_fields s s' \<Longrightarrow> same_fields s' s'' \<Longrightarrow> same_fields s s''"
  by (auto simp: same_fields_def)

lemma same_fields_length: "same_fields s s' \<Longrightarrow> length (trace s) \<le> length (trace s')"
  by (auto simp: same_fields_def)

lemma createCollection_effect:
  "createCollectionWithDimensions e d s = (r, s') \<Longrightarrow>
     same_fields s s'
     \<and> (r = Inr () \<longrightarrow> map_of (store s) (collectionName e) = None
           \<and> map_of (store s') (collectionName e) = Some \<lparr>vectors_size = Some d, points = []\<rparr>)"
  by (auto simp: createCollectionWithDimensions_def createCollection_def action_defs Let_def
      same_fields_def count_upserts_def in_fst_iff map_add_def split: option.splits if_splits)

lemma delete_and_create_effect:
  "delete_and_create e d s = (r, s') \<Longrightarrow>
     same_fields s s' \<and> (r = Inr () \<longrightarrow> recreated e d (length (trace s)) s')"
  by (auto simp: delete_and_create_def createCollectionWithDimensions_def createCollection_def
      deleteCollection_def action_defs Let_def same_fields_def count_upserts_def recreated_def in_fst_iff
      map_of_filter_fst_neq map_add_def split: option.splits if_splits)

lemma testCollectionQuery_effect:
  "testCollectionQuery e s = (r, s') \<Longrightarrow> same_fields s s' \<and> store s' = store s \<and> (\<exists>b. r = Inr b)"
  by (auto simp: testCollectionQuery_def qdrant_query_def action_defs Let_def same_fields_def
      count_upserts_def split: option.splits if_splits)

lemma getCollection_effect:
  "getCollection e name s = (r, s') \<Longrightarrow>
     same_fields s s' \<and> store s' = store s
     \<and> (\<forall>info. r = Inr info \<longrightarrow>
           (\<exists>c. map_of (store s) name = Some c \<and> config_vectors_size info = vectors_size c))"
  by (auto simp: getCollection_def action_defs Let_def same_fields_def count_upserts_def
      split: option.splits if_splits)

lemma ensure_collection_effect:
  assumes run: "ensure_collection e cols d s = (Inr (), s')" and cols: "cols = map fst (store s)"
  shows "same_fields s s'
       \<and> (recreated e d (length (trace s)) s'
         \<or> (store s' = store s \<and> (\<exists>c. map_of (store s) (collectionName e) = Some c \<and> vectors_size c = Some d))
         \<or> (map_of (store s) (collectionName e) = None
            \<and> map_of (store s') (collectionName e) = Some \<lparr>vectors_size = Some d, points = []\<rparr>))"
proof (cases "map_of (store s) (collectionName e)")
  case None
  then have "createCollectionWithDimensions e d s = (Inr (), s')"
    using run cols by (simp add: ensure_collection_def find_name_None_iff)
  from createCollection_effect [OF this] None show ?thesis by simp
next
  case (Some c0)
  then have ex: "find (\<lambda>col. col = collectionName e) cols \<noteq> None"
    using find_name_iff [of "collectionName e" "store s"] cols by simp
  show ?thesis
    using run Some unfolding ensure_collection_def
    apply (simp only: ex if_True)
    apply (auto simp: bnd_def try_catch_def ret_def Let_def
        split: prod.splits sum.splits if_splits
        dest!: delete_and_create_effect getCollection_effect testCollectionQuery_effect)
    apply (meson same_fields_trans same_fields_length recreated_mono le_trans)+
    done
qed

lemma detectEmbeddingDimensions_effect:
  "detectEmbeddingDimensions e s = (Inr d, s') \<Longrightarrow>
     actualVectorSize s' = Some d \<and> store s' = store s \<and> length (trace s) \<le> length (trace s')"
  by (auto simp: detectEmbeddingDimensions_def embedQuery_def action_defs Let_def
      split: option.splits if_splits)

lemma detectEmbeddingDimensions_cases:
  assumes "detectEmbeddingDimensions e s = (Inr d, s')"
  shows "(actualVectorSize s = Some d \<and> d \<noteq> 0 \<and> s' = s)
       \<or> ((actualVectorSize s = None \<or> actualVectorSize s = Some 0)
          \<and> fault e (length (trace s)) (EmbedQuery ''test dimension detection'') = None
          \<and> d = length (embedQuery_result e (length (trace s)) ''test dimension detection'')
          \<and> s' = s\<lparr>trace := trace s @ [EmbedQuery ''test dimension detection''],
                    actualVectorSize := Some d\<rparr>)"
  using assms
  by (auto simp: detectEmbeddingDimensions_def embedQuery_def action_defs Let_def
      split: option.splits if_splits)

lemma initializeCollection_shape:
  assumes "fst (initializeCollection e s) = Inr ()"
  shows "\<exists>d s1 s2. detectEmbeddingDimensions e (s\<lparr>trace := trace s @ [ClusterStatus]\<rparr>) = (Inr d, s1)
           \<and> ensure_collection e (map fst (store s1)) d (s1\<lparr>trace := trace s1 @ [GetCollections]\<rparr>)
               = (Inr (), s2)
           \<and> snd (initializeCollection e s) = s2\<lparr>vectorStore := True\<rparr>"
  using assms
  by (auto simp: initializeCollection_def testQdrantConnection_def clusterStatus_def
      getCollections_def action_defs Let_def split: prod.splits sum.splits option.splits if_splits)

text \<open>
  C3: after a run of \<^verbatim>\<open>initializeCollection\<close> that returned, there is a
  detected width \<open>d\<close>, returned by the width detection of the run, such that:
  \<open>d\<close> is the cached width of the system, the vector store handle is set, and
  the named collection exists on the server with width \<open>d\<close>. The width \<open>d\<close>
  comes from probing the embedding model: when the run started without a
  cached width (or with the width 0), its second call is the probe, the probe
  did not throw, and \<open>d\<close> is the length of the embedding that it returned;
  when the run started with a cached width, no probe is made and \<open>d\<close> is that
  width; and in both cases, if the cached width at the start was backed by a
  probe, then \<open>d\<close> is the length of the embedding returned by a probe call of
  the trace. If the collection existed before the run with another width, or
  none, then during the run it was deleted and created with width \<open>d\<close>, and
  it has no point.
\<close>

theorem initializeCollection_width:
  assumes "fst (initializeCollection e s) = Inr ()"
  shows "\<exists>d c. fst (detectEmbeddingDimensions e (s\<lparr>trace := trace s @ [ClusterStatus]\<rparr>)) = Inr d
           \<and> actualVectorSize (snd (initializeCollection e s)) = Some d
           \<and> vectorStore (snd (initializeCollection e s))
           \<and> map_of (store (snd (initializeCollection e s))) (collectionName e) = Some c
           \<and> vectors_size c = Some d
           \<and> (actualVectorSize s = None \<or> actualVectorSize s = Some 0 \<longrightarrow>
                d = length (embedQuery_result e (Suc (length (trace s))) ''test dimension detection'')
                \<and> fault e (Suc (length (trace s))) (EmbedQuery ''test dimension detection'') = None
                \<and> trace (snd (initializeCollection e s)) ! Suc (length (trace s))
                    = EmbedQuery ''test dimension detection'')
           \<and> (actualVectorSize s \<noteq> None \<and> actualVectorSize s \<noteq> Some 0 \<longrightarrow>
                actualVectorSize s = Some d
                \<and> EmbedQuery ''test dimension detection''
                    \<notin> set (drop (length (trace s)) (trace (snd (initializeCollection e s)))))
           \<and> (probe_backed e s \<longrightarrow>
                (\<exists>n<length (trace (snd (initializeCollection e s))).
                    trace (snd (initializeCollection e s)) ! n = EmbedQuery ''test dimension detection''
                    \<and> fault e n (EmbedQuery ''test dimension detection'') = None
                    \<and> d = length (embedQuery_result e n ''test dimension detection'')))
           \<and> (\<forall>c0. map_of (store s) (collectionName e) = Some c0 \<and> vectors_size c0 \<noteq> Some d
                \<longrightarrow> points c = []
                    \<and> DeleteCollection (collectionName e)
                        \<in> set (drop (length (trace s)) (trace (snd (initializeCollection e s))))
                    \<and> CreateCollection (collectionName e) d
                        \<in> set (drop (length (trace s)) (trace (snd (initializeCollection e s)))))"
proof -
  let ?name = "collectionName e"
  let ?probe = "EmbedQuery ''test dimension detection''"
  let ?s0 = "s\<lparr>trace := trace s @ [ClusterStatus]\<rparr>"
  from initializeCollection_shape [OF assms] obtain d s1 s2 where
    det: "detectEmbeddingDimensions e ?s0 = (Inr d, s1)"
    and ens: "ensure_collection e (map fst (store s1)) d (s1\<lparr>trace := trace s1 @ [GetCollections]\<rparr>)
               = (Inr (), s2)"
    and fin: "snd (initializeCollection e s) = s2\<lparr>vectorStore := True\<rparr>"
    by blast
  from detectEmbeddingDimensions_effect [OF det]
  have s1: "actualVectorSize s1 = Some d" "store s1 = store s" "length (trace s) \<le> length (trace s1)"
    by simp_all
  let ?s1' = "s1\<lparr>trace := trace s1 @ [GetCollections]\<rparr>"
  from ensure_collection_effect [OF ens] 
  have same: "same_fields ?s1' s2"
    and cases: "recreated e d (length (trace ?s1')) s2
         \<or> (store s2 = store ?s1' \<and> (\<exists>c. map_of (store ?s1') ?name = Some c \<and> vectors_size c = Some d))
         \<or> (map_of (store ?s1') ?name = None
            \<and> map_of (store s2) ?name = Some \<lparr>vectors_size = Some d, points = []\<rparr>)"
    by simp_all
  from same s1 have avs: "actualVectorSize s2 = Some d" by (simp add: same_fields_def)
  from same obtain calls where calls: "trace s2 = trace s1 @ GetCollections # calls"
    and later: "\<forall>c\<in>set calls. \<not> is_embed c"
    by (auto simp: same_fields_def)
  have size0: "actualVectorSize ?s0 = actualVectorSize s" "length (trace ?s0) = Suc (length (trace s))"
    by simp_all
  note det_cases = detectEmbeddingDimensions_cases [OF det, unfolded size0]
  have probed: "d = length (embedQuery_result e (Suc (length (trace s))) ''test dimension detection'')
                \<and> fault e (Suc (length (trace s))) ?probe = None
                \<and> trace s2 ! Suc (length (trace s)) = ?probe
                \<and> Suc (length (trace s)) < length (trace s2)"
    if "actualVectorSize s = None \<or> actualVectorSize s = Some 0"
  proof -
    from det_cases that
    have p: "fault e (Suc (length (trace s))) ?probe = None"
      "d = length (embedQuery_result e (Suc (length (trace s))) ''test dimension detection'')"
      "s1 = ?s0\<lparr>trace := trace ?s0 @ [?probe], actualVectorSize := Some d\<rparr>"
      by auto
    from p(3) calls have "trace s2 = trace s @ ClusterStatus # ?probe # GetCollections # calls"
      by simp
    then have "trace s2 ! Suc (length (trace s)) = ?probe" "Suc (length (trace s)) < length (trace s2)"
      by (simp_all add: nth_append)
    with p show ?thesis by simp
  qed
  have cached: "actualVectorSize s = Some d
                \<and> ?probe \<notin> set (drop (length (trace s)) (trace s2))
                \<and> (\<exists>calls'. trace s2 = trace s @ calls')"
    if "actualVectorSize s \<noteq> None \<and> actualVectorSize s \<noteq> Some 0"
  proof -
    from det_cases that have p: "actualVectorSize s = Some d" "s1 = ?s0" by auto
    from p(2) calls have tr: "trace s2 = trace s @ ClusterStatus # GetCollections # calls" by simp
    from later have "?probe \<notin> set calls" by auto
    with tr p(1) show ?thesis by auto
  qed
  have backed: "\<exists>n<length (trace s2). trace s2 ! n = ?probe \<and> fault e n ?probe = None
                  \<and> d = length (embedQuery_result e n ''test dimension detection'')"
    if pb: "probe_backed e s"
  proof (cases "actualVectorSize s = None \<or> actualVectorSize s = Some 0")
    case True
    from probed [OF True] show ?thesis by blast
  next
    case False
    then have "actualVectorSize s \<noteq> None \<and> actualVectorSize s \<noteq> Some 0" by simp
    from cached [OF this] obtain calls' where c: "actualVectorSize s = Some d"
      "trace s2 = trace s @ calls'" by blast
    from pb c(1) obtain n where n: "n < length (trace s)" "trace s ! n = ?probe"
      "fault e n ?probe = None" "d = length (embedQuery_result e n ''test dimension detection'')"
      by (auto simp: probe_backed_def)
    from n(1,2) c(2) have "n < length (trace s2)" "trace s2 ! n = ?probe"
      by (simp_all add: nth_append)
    with n(3,4) show ?thesis by blast
  qed
  from cases obtain c where c: "map_of (store s2) ?name = Some c" "vectors_size c = Some d"
    by (auto simp: recreated_def)
  have lost: "points c = [] \<and> DeleteCollection ?name \<in> set (drop (length (trace s)) (trace s2))
              \<and> CreateCollection ?name d \<in> set (drop (length (trace s)) (trace s2))"
    if pre: "map_of (store s) ?name = Some c0" "vectors_size c0 \<noteq> Some d" for c0
  proof -
    from cases pre s1 have "recreated e d (length (trace ?s1')) s2" by auto
    moreover have "length (trace s) \<le> length (trace ?s1')" using s1 by simp
    ultimately have "recreated e d (length (trace s)) s2" by (rule recreated_mono)
    with c show ?thesis by (simp add: recreated_def)
  qed
  have tr: "trace (snd (initializeCollection e s)) = trace s2"
    and vs: "vectorStore (snd (initializeCollection e s))"
    and sz: "actualVectorSize (snd (initializeCollection e s)) = Some d"
    and st: "map_of (store (snd (initializeCollection e s))) ?name = Some c"
    using avs c by (simp_all add: fin)
  have "fst (detectEmbeddingDimensions e ?s0) = Inr d" using det by simp
  moreover note sz vs st c(2)
  moreover have "actualVectorSize s = None \<or> actualVectorSize s = Some 0 \<longrightarrow>
                d = length (embedQuery_result e (Suc (length (trace s))) ''test dimension detection'')
                \<and> fault e (Suc (length (trace s))) ?probe = None
                \<and> trace (snd (initializeCollection e s)) ! Suc (length (trace s)) = ?probe"
    using probed by (simp add: tr)
  moreover have "actualVectorSize s \<noteq> None \<and> actualVectorSize s \<noteq> Some 0 \<longrightarrow>
                actualVectorSize s = Some d
                \<and> ?probe \<notin> set (drop (length (trace s)) (trace (snd (initializeCollection e s))))"
    using cached by (simp add: tr)
  moreover have "probe_backed e s \<longrightarrow>
                (\<exists>n<length (trace (snd (initializeCollection e s))).
                    trace (snd (initializeCollection e s)) ! n = ?probe
                    \<and> fault e n ?probe = None
                    \<and> d = length (embedQuery_result e n ''test dimension detection''))"
    using backed by (simp add: tr)
  moreover have "\<forall>c0. map_of (store s) ?name = Some c0 \<and> vectors_size c0 \<noteq> Some d
                \<longrightarrow> points c = []
                    \<and> DeleteCollection ?name
                        \<in> set (drop (length (trace s)) (trace (snd (initializeCollection e s))))
                    \<and> CreateCollection ?name d
                        \<in> set (drop (length (trace s)) (trace (snd (initializeCollection e s))))"
    using lost by (simp add: tr)
  ultimately show ?thesis by blast
qed

lemma initializeCollection_calm_stale:
  "initializeCollection calm stale =
     (Inr (), \<lparr>store = [(''docs'', \<lparr>vectors_size = Some 3, points = []\<rparr>)],
               trace = [ClusterStatus, EmbedQuery ''test dimension detection'', GetCollections,
                        GetCollection ''docs'', DeleteCollection ''docs'', CreateCollection ''docs'' 3],
               vectorStore = True, retrievalChain = False, actualVectorSize = Some 3,
               isInitialized = False\<rparr>)"
  by (simp add: init_defs qdrant_defs action_defs calm_def stale_def new_Error_def
      point_of_document_def Let_def)

lemma reinitializeCollection_calm:
  "initializeCollection calm (snd (initialize calm fresh)) =
     (Inr (), \<lparr>store = [(''docs'', \<lparr>vectors_size = Some 3, points = []\<rparr>)],
               trace = [ClusterStatus, EmbedQuery ''test dimension detection'', GetCollections,
                        CreateCollection ''docs'' 3, ClusterStatus, GetCollections,
                        GetCollection ''docs'', Query ''docs'' [0.1, 0.1, 0.1] 1],
               vectorStore = True, retrievalChain = False, actualVectorSize = Some 3,
               isInitialized = True\<rparr>)"
  unfolding initialize_calm_fresh snd_conv
  by (simp add: init_defs qdrant_defs action_defs calm_def new_Error_def Let_def numeral_3_eq_3)

theorem initializeCollection_width_witness:
  "fst (initializeCollection calm stale) = Inr ()
   \<and> map_of (store stale) (collectionName calm)
       = Some \<lparr>vectors_size = Some 256,
               points = [point_of_document \<lparr>pageContent = ''old'', metadata = []\<rparr>]\<rparr>
   \<and> actualVectorSize stale = None \<and> probe_backed calm stale
   \<and> fst (detectEmbeddingDimensions calm (stale\<lparr>trace := trace stale @ [ClusterStatus]\<rparr>)) = Inr 3
   \<and> length (embedQuery_result calm (Suc (length (trace stale))) ''test dimension detection'') = 3
   \<and> trace (snd (initializeCollection calm stale)) ! Suc (length (trace stale))
       = EmbedQuery ''test dimension detection''
   \<and> (\<exists>c. map_of (store (snd (initializeCollection calm stale))) (collectionName calm) = Some c
          \<and> vectors_size c = Some 3 \<and> points c = []
          \<and> DeleteCollection (collectionName calm)
               \<in> set (drop (length (trace stale)) (trace (snd (initializeCollection calm stale))))
          \<and> CreateCollection (collectionName calm) 3
               \<in> set (drop (length (trace stale)) (trace (snd (initializeCollection calm stale)))))
   \<and> fst (initializeCollection calm (snd (initialize calm fresh))) = Inr ()
   \<and> actualVectorSize (snd (initialize calm fresh)) = Some 3
   \<and> probe_backed calm (snd (initialize calm fresh))
   \<and> EmbedQuery ''test dimension detection''
       \<notin> set (drop (length (trace (snd (initialize calm fresh))))
                 (trace (snd (initializeCollection calm (snd (initialize calm fresh))))))
   \<and> (\<exists>n<length (trace (snd (initializeCollection calm (snd (initialize calm fresh))))).
         trace (snd (initializeCollection calm (snd (initialize calm fresh)))) ! n
           = EmbedQuery ''test dimension detection''
         \<and> fault calm n (EmbedQuery ''test dimension detection'') = None
         \<and> length (embedQuery_result calm n ''test dimension detection'') = 3)"
proof -
  let ?probe = "EmbedQuery ''test dimension detection''"
  let ?s = "snd (initialize calm fresh)"
  have ok: "fst (initializeCollection calm stale) = Inr ()"
    by (simp add: initializeCollection_calm_stale)
  have pre: "map_of (store stale) (collectionName calm)
       = Some \<lparr>vectors_size = Some 256,
               points = [point_of_document \<lparr>pageContent = ''old'', metadata = []\<rparr>]\<rparr>"
    by (simp add: stale_def calm_def)
  have none: "actualVectorSize stale = None" by (simp add: stale_def)
  have pb: "probe_backed calm stale" by (simp add: probe_backed_def stale_def)
  have det: "fst (detectEmbeddingDimensions calm (stale\<lparr>trace := trace stale @ [ClusterStatus]\<rparr>)) = Inr 3"
    by (simp add: detectEmbeddingDimensions_def embedQuery_def action_defs calm_def stale_def)
  from initializeCollection_width [OF ok] obtain d c where
    d: "fst (detectEmbeddingDimensions calm (stale\<lparr>trace := trace stale @ [ClusterStatus]\<rparr>)) = Inr d"
    and c: "map_of (store (snd (initializeCollection calm stale))) (collectionName calm) = Some c"
      "vectors_size c = Some d"
    and probe: "actualVectorSize stale = None \<or> actualVectorSize stale = Some 0 \<longrightarrow>
                d = length (embedQuery_result calm (Suc (length (trace stale))) ''test dimension detection'')
                \<and> fault calm (Suc (length (trace stale))) ?probe = None
                \<and> trace (snd (initializeCollection calm stale)) ! Suc (length (trace stale)) = ?probe"
    and lost: "\<forall>c0. map_of (store stale) (collectionName calm) = Some c0 \<and> vectors_size c0 \<noteq> Some d
                \<longrightarrow> points c = []
                    \<and> DeleteCollection (collectionName calm)
                        \<in> set (drop (length (trace stale)) (trace (snd (initializeCollection calm stale))))
                    \<and> CreateCollection (collectionName calm) d
                        \<in> set (drop (length (trace stale)) (trace (snd (initializeCollection calm stale))))"
    by blast
  from d det have d3: "d = 3" by simp
  from probe none d3
  have probed: "length (embedQuery_result calm (Suc (length (trace stale))) ''test dimension detection'') = 3"
    "trace (snd (initializeCollection calm stale)) ! Suc (length (trace stale)) = ?probe"
    by simp_all
  from lost pre d3 have recreated: "points c = []
      \<and> DeleteCollection (collectionName calm)
          \<in> set (drop (length (trace stale)) (trace (snd (initializeCollection calm stale))))
      \<and> CreateCollection (collectionName calm) 3
          \<in> set (drop (length (trace stale)) (trace (snd (initializeCollection calm stale))))"
    by simp
  have ok2: "fst (initializeCollection calm ?s) = Inr ()"
    by (simp add: reinitializeCollection_calm)
  have cache2: "actualVectorSize ?s = Some 3" by (simp add: initialize_calm_fresh)
  have pb2: "probe_backed calm ?s"
    unfolding initialize_calm_fresh snd_conv
    by (auto simp: probe_backed_def calm_def intro!: exI [of _ 1])
  from initializeCollection_width [OF ok2] obtain d2 where
    cached: "actualVectorSize ?s \<noteq> None \<and> actualVectorSize ?s \<noteq> Some 0 \<longrightarrow>
                actualVectorSize ?s = Some d2
                \<and> ?probe \<notin> set (drop (length (trace ?s)) (trace (snd (initializeCollection calm ?s))))"
    and backed: "probe_backed calm ?s \<longrightarrow>
                (\<exists>n<length (trace (snd (initializeCollection calm ?s))).
                    trace (snd (initializeCollection calm ?s)) ! n = ?probe
                    \<and> fault calm n ?probe = None
                    \<and> d2 = length (embedQuery_result calm n ''test dimension detection''))"
    by blast
  from cached cache2 have d23: "d2 = 3"
    and noprobe: "?probe \<notin> set (drop (length (trace ?s)) (trace (snd (initializeCollection calm ?s))))"
    by simp_all
  from backed pb2 d23
  have back2: "\<exists>n<length (trace (snd (initializeCollection calm ?s))).
         trace (snd (initializeCollection calm ?s)) ! n = ?probe
         \<and> fault calm n ?probe = None
         \<and> length (embedQuery_result calm n ''test dimension detection'') = 3"
    by auto
  from ok pre none pb det probed c d3 recreated ok2 cache2 pb2 noprobe back2
  show ?thesis by blast
qed

subsection \<open>C5: one repair cycle during ingestion\<close>

lemma ensure_collection_frame:
  assumes "ensure_collection e cols d s = (r, s')"
  shows "same_fields s s'"
proof (cases "find (\<lambda>col. col = collectionName e) cols \<noteq> None")
  case False
  then have "createCollectionWithDimensions e d s = (r, s')"
    using assms by (simp add: ensure_collection_def)
  from createCollection_effect [OF this] show ?thesis by simp
next
  case True
  show ?thesis
    using assms unfolding ensure_collection_def
    apply (simp only: True if_True)
    apply (auto simp: bnd_def try_catch_def ret_def Let_def
        split: prod.splits sum.splits if_splits
        dest!: delete_and_create_effect getCollection_effect testCollectionQuery_effect)
    apply (meson same_fields_trans)+
    done
qed

lemma detectEmbeddingDimensions_upserts:
  "count_upserts (snd (detectEmbeddingDimensions e s)) = count_upserts s"
  by (auto simp: detectEmbeddingDimensions_def embedQuery_def action_defs Let_def count_upserts_def
      split: option.splits if_splits)

lemma initializeCollection_upserts:
  "count_upserts (snd (initializeCollection e s)) = count_upserts s"
proof -
  let ?s0 = "s\<lparr>trace := trace s @ [ClusterStatus]\<rparr>"
  have c0: "count_upserts ?s0 = count_upserts s" by (simp add: count_upserts_def)
  obtain r1 s1 where det: "detectEmbeddingDimensions e ?s0 = (r1, s1)"
    by (cases "detectEmbeddingDimensions e ?s0")
  have c1: "count_upserts s1 = count_upserts s"
    using detectEmbeddingDimensions_upserts [of e ?s0] det c0 by simp
  let ?s1' = "s1\<lparr>trace := trace s1 @ [GetCollections]\<rparr>"
  have c1': "count_upserts ?s1' = count_upserts s" using c1 by (simp add: count_upserts_def)
  have ens: "length (filter is_upsert (trace s2)) = length (filter is_upsert (trace s))"
    if "ensure_collection e cols d ?s1' = (r, s2)" for cols d r s2
    using ensure_collection_frame [OF that] c1' by (simp add: same_fields_def count_upserts_def)
  show ?thesis
    using det c0 c1 c1'
    by (auto simp: initializeCollection_def testQdrantConnection_def clusterStatus_def
      getCollections_def action_defs Let_def count_upserts_def
      split: prod.splits sum.splits option.splits if_splits dest: ens)
qed

lemma createRetrievalChain_upserts:
  "count_upserts (snd (createRetrievalChain e s)) = count_upserts s"
  by (auto simp: createRetrievalChain_def action_defs Let_def count_upserts_def
      split: option.splits)

lemma vs_addDocuments_upserts:
  "count_upserts (snd (vs_addDocuments e docs s)) \<le> count_upserts s + 1"
  by (auto simp: vs_addDocuments_def action_defs Let_def count_upserts_def split: option.splits)

lemma addDocuments_with_recovery_upserts:
  "count_upserts (snd (addDocuments_with_recovery e docs s)) \<le> count_upserts s + 2"
proof (cases "vs_addDocuments e docs s")
  case (Pair r1 s1)
  have c1: "count_upserts s1 \<le> count_upserts s + 1"
    using vs_addDocuments_upserts [of e docs s] Pair by simp
  show ?thesis
  proof (cases r1)
    case (Inr u)
    with Pair c1 show ?thesis by (simp add: addDocuments_with_recovery_def try_catch_def)
  next
    case (Inl err)
    show ?thesis
    proof (cases "is_dimension_error err")
      case False
      with Pair Inl c1 show ?thesis
        by (simp add: addDocuments_with_recovery_def try_catch_def throw_def)
    next
      case True
      let ?s2 = "s1\<lparr>vectorStore := False, actualVectorSize := None\<rparr>"
      have c2: "count_upserts ?s2 = count_upserts s1" by (simp add: count_upserts_def)
      obtain r3 s3 where init: "initializeCollection e ?s2 = (r3, s3)"
        by (cases "initializeCollection e ?s2")
      have c3: "count_upserts s3 = count_upserts s1"
        using initializeCollection_upserts [of e ?s2] init c2 by simp
      have c4: "count_upserts (snd (vs_addDocuments e docs s3)) \<le> count_upserts s3 + 1"
        by (rule vs_addDocuments_upserts)
      from Pair Inl True init c1 c3 c4 show ?thesis
        by (auto simp: addDocuments_with_recovery_def try_catch_def bnd_def modify_def
            split: prod.splits sum.splits)
    qed
  qed
qed

lemma processText_upserts:
  "count_upserts (snd (processText e text meta s)) \<le> count_upserts s + 2"
proof -
  obtain r0 s0 where pre: "(if \<not> vectorStore s then initializeCollection e s else (Inr (), s)) = (r0, s0)"
    by (cases "if \<not> vectorStore s then initializeCollection e s else (Inr (), s)")
  have c0: "count_upserts s0 = count_upserts s"
    using pre initializeCollection_upserts [of e s] by (auto split: if_splits)
  have both: "count_upserts s3 \<le> Suc (Suc (count_upserts s0))"
    if "addDocuments_with_recovery e docs s0 = (r, s2)" "createRetrievalChain e s2 = (r', s3)"
    for docs r r' s2 s3
    using addDocuments_with_recovery_upserts [of e docs s0] createRetrievalChain_upserts [of e s2] that
    by simp
  have one: "count_upserts s2 \<le> Suc (Suc (count_upserts s0))"
    if "addDocuments_with_recovery e docs s0 = (r, s2)" for docs r s2
    using addDocuments_with_recovery_upserts [of e docs s0] that by simp
  have "count_upserts (snd (processText e text meta s)) \<le> Suc (Suc (count_upserts s0))"
    using pre
    by (auto simp: processText_def try_catch_def bnd_def throw_def
        split: prod.splits sum.splits if_splits intro: both one)
  with c0 show ?thesis by simp
qed


lemma initializeCollection_sets_handle:
  "initializeCollection e s = (Inr u, s') \<Longrightarrow> vectorStore s'"
  using initializeCollection_shape [of e s] by auto

text \<open>
  C5: let the vector store handle be set and the first \<^verbatim>\<open>addDocuments\<close> call of
  the ingestion throw \<open>err\<close>. If \<open>err\<close> is not a dimension-mismatch signal (an
  \<^verbatim>\<open>Error\<close> whose message contains "dimension"), \<open>err\<close> is thrown on and no other
  call is made. If it is, the handle and the cached width are cleared and the
  collection is initialized again: a failure of this initialization is thrown
  on; after its success \<^verbatim>\<open>addDocuments\<close> is called once more, and a failure
  of this second call is thrown on, whatever it is, while its success ends
  the step. In every case at most two \<^verbatim>\<open>addDocuments\<close> calls are made, by the
  step and by \<^verbatim>\<open>processText\<close> as a whole, and what the step throws reaches the
  caller of \<^verbatim>\<open>processText\<close> inside the message "Failed to process text: ...".
\<close>

theorem addDocuments_repair_cycle:
  assumes "vectorStore s"
    and "fault e (length (trace s)) (AddDocuments docs) = Some err"
  shows "(\<not> is_dimension_error err \<longrightarrow>
            addDocuments_with_recovery e docs s
            = (Inl err, s\<lparr>trace := trace s @ [AddDocuments docs]\<rparr>))
       \<and> (is_dimension_error err
          \<and> initializeCollection e (s\<lparr>trace := trace s @ [AddDocuments docs],
                                       vectorStore := False, actualVectorSize := None\<rparr>)
              = (Inl ierr, s2) \<longrightarrow>
            addDocuments_with_recovery e docs s = (Inl ierr, s2))
       \<and> (is_dimension_error err
          \<and> initializeCollection e (s\<lparr>trace := trace s @ [AddDocuments docs],
                                       vectorStore := False, actualVectorSize := None\<rparr>)
              = (Inr (), s3)
          \<and> fault e (length (trace s3)) (AddDocuments docs) = Some err2 \<longrightarrow>
            addDocuments_with_recovery e docs s
            = (Inl err2, s3\<lparr>trace := trace s3 @ [AddDocuments docs]\<rparr>))
       \<and> (is_dimension_error err
          \<and> initializeCollection e (s\<lparr>trace := trace s @ [AddDocuments docs],
                                       vectorStore := False, actualVectorSize := None\<rparr>)
              = (Inr (), s3)
          \<and> fault e (length (trace s3)) (AddDocuments docs) = None \<longrightarrow>
            fst (addDocuments_with_recovery e docs s) = Inr ()
            \<and> trace (snd (addDocuments_with_recovery e docs s)) = trace s3 @ [AddDocuments docs])
       \<and> count_upserts (snd (addDocuments_with_recovery e docs s)) \<le> count_upserts s + 2
       \<and> count_upserts (snd (processText e text meta s)) \<le> count_upserts s + 2
       \<and> (text \<noteq> [] \<and> filter (\<lambda>c. \<not> is_whitespace c) text \<noteq> []
          \<and> addDocuments_with_recovery e
               (map (\<lambda>(index, chunk). make_document e (length (trace s)) meta chunk index)
                  (enumerate 0 (splitText e text))) s = (Inl err3, s4) \<longrightarrow>
            processText e text meta s
            = (Inl (new_Error (''Failed to process text: '' @ err_toString err3)), s4))"
proof -
  let ?s1 = "s\<lparr>trace := trace s @ [AddDocuments docs]\<rparr>"
  let ?s2 = "s\<lparr>trace := trace s @ [AddDocuments docs], vectorStore := False, actualVectorSize := None\<rparr>"
  have first: "vs_addDocuments e docs s = (Inl err, ?s1)"
    using assms by (simp add: vs_addDocuments_def call_ext_def Let_def)
  have nodim: "addDocuments_with_recovery e docs s = (Inl err, ?s1)" if "\<not> is_dimension_error err"
    using first that by (simp add: addDocuments_with_recovery_def try_catch_def throw_def)
  have repair: "addDocuments_with_recovery e docs s
             = bnd (initializeCollection e) (\<lambda>_. vs_addDocuments e docs) ?s2"
    if "is_dimension_error err"
    using first that by (simp add: addDocuments_with_recovery_def try_catch_def bnd_def modify_def)
  have ifail: "addDocuments_with_recovery e docs s = (Inl ierr, s2)"
    if "is_dimension_error err" "initializeCollection e ?s2 = (Inl ierr, s2)"
    using repair [OF that(1)] that(2) by (simp add: bnd_def)
  have rfail: "addDocuments_with_recovery e docs s = (Inl err2, s3\<lparr>trace := trace s3 @ [AddDocuments docs]\<rparr>)"
    if "is_dimension_error err" "initializeCollection e ?s2 = (Inr (), s3)"
      "fault e (length (trace s3)) (AddDocuments docs) = Some err2"
    using repair [OF that(1)] that(2,3) initializeCollection_sets_handle [OF that(2)]
    by (simp add: bnd_def vs_addDocuments_def call_ext_def Let_def)
  have rok: "fst (addDocuments_with_recovery e docs s) = Inr ()
            \<and> trace (snd (addDocuments_with_recovery e docs s)) = trace s3 @ [AddDocuments docs]"
    if "is_dimension_error err" "initializeCollection e ?s2 = (Inr (), s3)"
      "fault e (length (trace s3)) (AddDocuments docs) = None"
    using repair [OF that(1)] that(2,3) initializeCollection_sets_handle [OF that(2)]
    by (simp add: bnd_def vs_addDocuments_def call_ext_def modify_def Let_def)
  have wrap: "processText e text meta s
            = (Inl (new_Error (''Failed to process text: '' @ err_toString err3)), s4)"
    if "text \<noteq> []" "filter (\<lambda>c. \<not> is_whitespace c) text \<noteq> []"
      "addDocuments_with_recovery e
               (map (\<lambda>(index, chunk). make_document e (length (trace s)) meta chunk index)
                  (enumerate 0 (splitText e text))) s = (Inl err3, s4)"
    using assms(1) that by (simp add: processText_def try_catch_def bnd_def throw_def)
  from nodim ifail rfail rok wrap addDocuments_with_recovery_upserts [of e docs s] processText_upserts [of e "text" meta s]
  show ?thesis by blast
qed


theorem addDocuments_repair_cycle_witness:
  "vectorStore ready
   \<and> is_dimension_error (new_Error ''Vector dimension error: expected dim: 3, got 768'')
   \<and> fst (addDocuments_with_recovery
            (calm\<lparr>fault := \<lambda>n c. if n = 0
                                 then Some (new_Error ''Vector dimension error: expected dim: 3, got 768'')
                                 else None\<rparr>) [paris] ready) = Inr ()
   \<and> trace (snd (addDocuments_with_recovery
            (calm\<lparr>fault := \<lambda>n c. if n = 0
                                 then Some (new_Error ''Vector dimension error: expected dim: 3, got 768'')
                                 else None\<rparr>) [paris] ready))
       = [AddDocuments [paris], ClusterStatus, EmbedQuery ''test dimension detection'',
          GetCollections, GetCollection ''docs'', Query ''docs'' [0.1, 0.1, 0.1] 1,
          AddDocuments [paris]]
   \<and> addDocuments_with_recovery
        (calm\<lparr>fault := \<lambda>n c. if is_upsert c then Some (new_Error ''Wrong vector dimension'') else None\<rparr>)
        [paris] ready
       = (Inl (new_Error ''Wrong vector dimension''),
          ready\<lparr>trace := [AddDocuments [paris], ClusterStatus, EmbedQuery ''test dimension detection'',
                           GetCollections, GetCollection ''docs'', Query ''docs'' [0.1, 0.1, 0.1] 1,
                           AddDocuments [paris]]\<rparr>)
   \<and> \<not> is_dimension_error (new_Error ''timeout'')
   \<and> addDocuments_with_recovery (calm\<lparr>fault := \<lambda>n c. Some (new_Error ''timeout'')\<rparr>) [paris] ready
       = (Inl (new_Error ''timeout''), ready\<lparr>trace := [AddDocuments [paris]]\<rparr>)"
proof -
  let ?dim = "new_Error ''Vector dimension error: expected dim: 3, got 768''"
  let ?e1 = "calm\<lparr>fault := \<lambda>n c. if n = 0 then Some ?dim else None\<rparr>"
  let ?e2 = "calm\<lparr>fault := \<lambda>n c. if is_upsert c then Some (new_Error ''Wrong vector dimension'') else None\<rparr>"
  let ?e3 = "calm\<lparr>fault := \<lambda>n c. Some (new_Error ''timeout'')\<rparr>"
  let ?s2 = "ready\<lparr>trace := trace ready @ [AddDocuments [paris]],
                    vectorStore := False, actualVectorSize := None\<rparr>"
  let ?s3 = "ready\<lparr>trace := [AddDocuments [paris], ClusterStatus,
                                EmbedQuery ''test dimension detection'', GetCollections,
                                GetCollection ''docs'', Query ''docs'' [0.1, 0.1, 0.1] 1]\<rparr>"
  have vs: "vectorStore ready" by (simp add: ready_def)
  have dim1: "is_dimension_error ?dim" by (simp add: is_dimension_error_def new_Error_def)
  have dim2: "is_dimension_error (new_Error ''Wrong vector dimension'')"
    by (simp add: is_dimension_error_def new_Error_def)
  have dim3: "\<not> is_dimension_error (new_Error ''timeout'')"
    by (simp add: is_dimension_error_def new_Error_def)
  have f1: "fault ?e1 (length (trace ready)) (AddDocuments [paris]) = Some ?dim"
    by (simp add: ready_def)
  have f2: "fault ?e2 (length (trace ready)) (AddDocuments [paris]) = Some (new_Error ''Wrong vector dimension'')"
    by simp
  have f3: "fault ?e3 (length (trace ready)) (AddDocuments [paris]) = Some (new_Error ''timeout'')"
    by simp
  have i1: "initializeCollection ?e1 ?s2 = (Inr (), ?s3)"
    by (simp add: init_defs qdrant_defs action_defs ready_def calm_def new_Error_def Let_def
        numeral_3_eq_3)
  have i2: "initializeCollection ?e2 ?s2 = (Inr (), ?s3)"
    by (simp add: init_defs qdrant_defs action_defs ready_def calm_def new_Error_def Let_def
        numeral_3_eq_3)
  have r1: "fault ?e1 (length (trace ?s3)) (AddDocuments [paris]) = None" by simp
  have r2: "fault ?e2 (length (trace ?s3)) (AddDocuments [paris]) = Some (new_Error ''Wrong vector dimension'')"
    by simp
  from addDocuments_repair_cycle [OF vs f1, of _ _ ?s3] dim1 i1 r1
  have w1: "fst (addDocuments_with_recovery ?e1 [paris] ready) = Inr ()
            \<and> trace (snd (addDocuments_with_recovery ?e1 [paris] ready)) = trace ?s3 @ [AddDocuments [paris]]"
    by blast
  from addDocuments_repair_cycle [OF vs f2, of _ _ ?s3 "new_Error ''Wrong vector dimension''"] dim2 i2 r2
  have w2: "addDocuments_with_recovery ?e2 [paris] ready
            = (Inl (new_Error ''Wrong vector dimension''), ?s3\<lparr>trace := trace ?s3 @ [AddDocuments [paris]]\<rparr>)"
    by blast
  from addDocuments_repair_cycle [OF vs f3] dim3
  have w3: "addDocuments_with_recovery ?e3 [paris] ready
            = (Inl (new_Error ''timeout''), ready\<lparr>trace := trace ready @ [AddDocuments [paris]]\<rparr>)"
    by blast
  from vs dim1 dim3 w1 w2 w3 show ?thesis by (simp add: ready_def)
qed

end
